theory Spec2Isabelle
  imports Main "HOL-Library.AList"
begin

section \<open>Counter channel\<close>

text \<open>
  The counter channel (\<^verbatim>\<open>UInt64Stat\<close>, \<^verbatim>\<open>UInt64StatCollection\<close> of package
  \<^verbatim>\<open>collector/metric\<close>) is used by the collector and by its test
  (\<^verbatim>\<open>AddNewCurr\<close>, \<^verbatim>\<open>AddAggrStat\<close>, \<^verbatim>\<open>SetNewAggr\<close>), but its code is not among the
  source files. The definitions of this section are written from sections 3 and 4.1 of
  the specification. Values are unsigned 64-bit in the callers; they are kept as
  integers here so that the specification's \<open>max(0, agg - prev_agg)\<close> reads as written.
  Besides the fields that section 3 names, the record keeps the baseline of every
  producer, of which section 4.1 speaks ("set that producer's baseline to 0"): the
  previous aggregate is the sum of the baselines, as the aggregate is the sum of the
  contributions.
\<close>

record 'p channel =
  agg :: int
  prev_agg :: int
  curr :: int
  producers :: "('p \<times> int) list"
  baselines :: "('p \<times> int) list"

text \<open>Modelled from the spec: a channel on which nothing was written yet (the
  constructor of the missing \<^verbatim>\<open>UInt64Stat\<close>); every field is zero, no producer is known.\<close>

definition new_channel :: "'p channel" where
  "new_channel = \<lparr>agg = 0, prev_agg = 0, curr = 0, producers = [], baselines = []\<rparr>"

text \<open>Modelled from the spec: \<^verbatim>\<open>add_delta(v)\<close>, the missing \<^verbatim>\<open>AddNewCurr\<close>:
  \<open>agg += v; curr += v\<close>.\<close>

definition add_delta :: "int \<Rightarrow> 'p channel \<Rightarrow> 'p channel" where
  "add_delta v c = c\<lparr>agg := agg c + v, curr := curr c + v\<rparr>"

text \<open>Modelled from the spec: \<^verbatim>\<open>set_aggregate(producer_id, v)\<close>, the missing
  \<^verbatim>\<open>AddAggrStat\<close>, with the restart rule built in. Section 4.1: set or replace this
  producer's contribution, the channel-level aggregate is the sum over the producers;
  "if a producer reports \<open>v < previous v\<close> for the same id, treat as restart: set that
  producer's baseline to 0 and accept \<open>v\<close> as the new contribution". Section 3:
  aggregate set replaces the aggregate and recomputes \<open>curr = max(0, new_agg - prev_agg)\<close>.
  The baseline of a producer that reports again without a decrease is its previous
  contribution, which is what the repository's test relies on when two aggregate
  writes in a row are to give "a current value (i.e. agg diff)"; the baseline of a
  producer that reports for the first time is 0.\<close>

definition set_aggregate :: "'p \<Rightarrow> int \<Rightarrow> 'p channel \<Rightarrow> 'p channel" where
  "set_aggregate p v c =
     (let baseline = (case map_of (producers c) p of
                        None \<Rightarrow> 0
                      | Some previous \<Rightarrow> if v < previous then 0 else previous);
          ps = AList.update p v (producers c);
          bs = AList.update p baseline (baselines c);
          new_agg = sum_list (map snd ps);
          new_prev_agg = sum_list (map snd bs)
      in c\<lparr>producers := ps, baselines := bs, agg := new_agg, prev_agg := new_prev_agg,
           curr := max 0 (new_agg - new_prev_agg)\<rparr>)"

text \<open>Modelled from the spec: \<^verbatim>\<open>commit()\<close>:
  \<open>curr = max(0, agg - prev_agg); prev_agg = agg\<close>; every producer's contribution becomes
  its baseline.\<close>

definition commit :: "'p channel \<Rightarrow> 'p channel" where
  "commit c = c\<lparr>curr := max 0 (agg c - prev_agg c), prev_agg := agg c,
                 baselines := producers c\<rparr>"

section \<open>Package cgroup: the slice handler\<close>

text \<open>
  \<^verbatim>\<open>pkg/cgroup/slice_handler.go\<close>. The three reader types are declared elsewhere; the
  file builds them from a path only, so a reader is the tag of its type and its
  \<^verbatim>\<open>Path\<close>. A Go map that is only looked up and stored into is a partial function; a
  Go map that is iterated (the result of \<^verbatim>\<open>Read\<close>) is an association list.
\<close>

datatype StatReader =
    CPUStatReader string
  | MemoryStatReader string
  | IOStatReader string

record SliceHandler =
  statReaders :: "string \<rightharpoonup> StatReader list"
  CPUTopPath :: string
  MemoryTopPath :: string
  IOTopPath :: string

datatype panic = NilPointerDereference

definition baseCGroupPath :: string where
  "baseCGroupPath = ''/sys/fs/cgroup''"

definition KubePodCGroupPath :: string where
  "KubePodCGroupPath = ''/sys/fs/cgroup/kubepods.slice''"

definition SystemCGroupPath :: string where
  "SystemCGroupPath = ''/sys/fs/cgroup/system.slice''"

text \<open>\<^verbatim>\<open>filepath.Join\<close> of two clean, non-empty elements: the elements with the
  separator between them.\<close>

definition filepath_Join :: "string \<Rightarrow> string \<Rightarrow> string" where
  "filepath_Join a b = a @ ''/'' @ b"

definition Init :: "SliceHandler \<Rightarrow> SliceHandler" where
  "Init s = s\<lparr>statReaders := Map.empty\<rparr>"

definition GetStatReaders :: "SliceHandler \<Rightarrow> (string \<rightharpoonup> StatReader list)" where
  "GetStatReaders s = statReaders s"

definition SetStatReaders :: "string \<Rightarrow> StatReader list \<Rightarrow> SliceHandler \<Rightarrow> SliceHandler" where
  "SetStatReaders containerID rs s = s\<lparr>statReaders := (statReaders s)(containerID \<mapsto> rs)\<rparr>"

definition GetCPUTopPath :: "SliceHandler \<Rightarrow> string" where
  "GetCPUTopPath s = CPUTopPath s"

definition GetMemoryTopPath :: "SliceHandler \<Rightarrow> string" where
  "GetMemoryTopPath s = MemoryTopPath s"

definition GetIOTopPath :: "SliceHandler \<Rightarrow> string" where
  "GetIOTopPath s = IOTopPath s"

text \<open>\<^verbatim>\<open>GetStats\<close>. \<open>Read\<close> is what each reader's \<^verbatim>\<open>Read()\<close> returns at this moment
  (the pseudo-filesystem). The function has one result, a map: there is no error to
  return.\<close>

definition GetStats ::
  "(StatReader \<Rightarrow> (string \<times> 'v) list) \<Rightarrow> SliceHandler \<Rightarrow> string \<Rightarrow> (string \<times> 'v) list" where
  "GetStats Read s containerID =
     (case statReaders s containerID of
        Some readers \<Rightarrow>
          fold (\<lambda>reader values.
                  fold (\<lambda>(k, v) values. AList.update k v values) (Read reader) values)
               readers []
      | None \<Rightarrow> [])"

text \<open>\<^verbatim>\<open>InitSliceHandler\<close>. \<open>stat_ok p\<close> says that \<^verbatim>\<open>os.Stat(p)\<close> returns no error.
  The second component of the result lists the paths given to \<^verbatim>\<open>os.Stat\<close>, in the
  order of the calls.\<close>

definition InitSliceHandler :: "(string \<Rightarrow> bool) \<Rightarrow> SliceHandler \<times> string list" where
  "InitSliceHandler stat_ok =
     (if stat_ok KubePodCGroupPath then
        (Init \<lparr>statReaders = Map.empty, CPUTopPath = KubePodCGroupPath,
               MemoryTopPath = KubePodCGroupPath, IOTopPath = KubePodCGroupPath\<rparr>,
         [KubePodCGroupPath])
      else if stat_ok SystemCGroupPath then
        (Init \<lparr>statReaders = Map.empty, CPUTopPath = SystemCGroupPath,
               MemoryTopPath = SystemCGroupPath, IOTopPath = SystemCGroupPath\<rparr>,
         [KubePodCGroupPath, SystemCGroupPath])
      else
        (Init \<lparr>statReaders = Map.empty, CPUTopPath = filepath_Join baseCGroupPath ''cpu'',
               MemoryTopPath = filepath_Join baseCGroupPath ''memory'',
               IOTopPath = filepath_Join baseCGroupPath ''blkio''\<rparr>,
         [KubePodCGroupPath, SystemCGroupPath]))"

text \<open>\<^verbatim>\<open>SetSliceHandler\<close>: the package variable \<^verbatim>\<open>SliceHandlerInstance\<close> is a pointer,
  nil until this assignment; it is an option here.\<close>

definition SetSliceHandler :: "(string \<Rightarrow> bool) \<Rightarrow> SliceHandler option" where
  "SetSliceHandler stat_ok = Some (fst (InitSliceHandler stat_ok))"

text \<open>\<^verbatim>\<open>strings.Replace(s, old, new, 1)\<close>: the first occurrence of \<open>old\<close> in \<open>s\<close> is
  replaced; an empty \<open>old\<close> matches at the beginning.\<close>

fun strings_Replace_1 :: "string \<Rightarrow> string \<Rightarrow> string \<Rightarrow> string" where
  "strings_Replace_1 [] old new = (if old = [] then new else [])"
| "strings_Replace_1 (c # cs) old new =
     (if take (length old) (c # cs) = old then new @ drop (length old) (c # cs)
      else c # strings_Replace_1 cs old new)"

text \<open>\<^verbatim>\<open>TryInitStatReaders\<close>. \<^verbatim>\<open>SearchByContainerID\<close> walks the file system and is not
  in this file: it is a parameter. The result is the handler behind
  \<^verbatim>\<open>SliceHandlerInstance\<close> after the call; a nil instance panics in
  \<^verbatim>\<open>GetStatReaders\<close>.\<close>

definition TryInitStatReaders ::
  "(string \<Rightarrow> string \<Rightarrow> string) \<Rightarrow> SliceHandler option \<Rightarrow> string \<Rightarrow> panic + SliceHandler" where
  "TryInitStatReaders SearchByContainerID SliceHandlerInstance containerID =
     (case SliceHandlerInstance of
        None \<Rightarrow> Inl NilPointerDereference
      | Some s \<Rightarrow>
          (case GetStatReaders s containerID of
             Some _ \<Rightarrow> Inr s
           | None \<Rightarrow>
               (let cpuTopPath = GetCPUTopPath s;
                    memoryTopPath = GetMemoryTopPath s;
                    ioTopPath = GetIOTopPath s;
                    containerCPUPath = SearchByContainerID cpuTopPath containerID;
                    containerMemoryPath = strings_Replace_1 containerCPUPath cpuTopPath memoryTopPath;
                    containerIOPath = strings_Replace_1 containerCPUPath cpuTopPath ioTopPath
                in Inr (s\<lparr>statReaders := (statReaders s)(containerID \<mapsto>
                          [CPUStatReader containerCPUPath,
                           MemoryStatReader containerMemoryPath,
                           IOStatReader containerIOPath])\<rparr>))))"

text \<open>Modelled from the spec: \<^verbatim>\<open>convertToStandard\<close> is called by \<^verbatim>\<open>GetStandardStat\<close>
  but is not in this file. The specification only speaks of the values read for a
  container becoming updates of its channels; the conversion is taken entry by entry,
  \<open>standardNames k\<close> being the standard channel names that the raw key \<open>k\<close> feeds.\<close>

definition convertToStandard ::
  "(string \<Rightarrow> string list) \<Rightarrow> (string \<times> 'v) list \<Rightarrow> (string \<times> 'v) list" where
  "convertToStandard standardNames stats =
     concat (map (\<lambda>(k, v). map (\<lambda>k'. (k', v)) (standardNames k)) stats)"

definition GetStandardStat ::
  "(string \<Rightarrow> string list) \<Rightarrow> (StatReader \<Rightarrow> (string \<times> 'v) list) \<Rightarrow> SliceHandler option
     \<Rightarrow> string \<Rightarrow> panic + (string \<times> 'v) list" where
  "GetStandardStat standardNames Read SliceHandlerInstance containerID =
     (case SliceHandlerInstance of
        None \<Rightarrow> Inl NilPointerDereference
      | Some s \<Rightarrow> Inr (convertToStandard standardNames (GetStats Read s containerID)))"

text \<open>Every registered container has exactly one CPU reader, one memory reader and
  one IO reader, in this order.\<close>

fun one_reader_each :: "StatReader list \<Rightarrow> bool" where
  "one_reader_each [CPUStatReader _, MemoryStatReader _, IOStatReader _] = True"
| "one_reader_each _ = False"

section \<open>Package components: the node energy backend\<close>

text \<open>
  \<^verbatim>\<open>pkg/power/components\<close>. The three backends (\<^verbatim>\<open>source.PowerSysfs\<close>,
  \<^verbatim>\<open>source.PowerMSR\<close>, \<^verbatim>\<open>source.PowerDummy\<close>) are declared in another package; what
  a backend answers when one of its methods is called is a parameter. Energies are
  unsigned millijoule counts.
\<close>

record NodeComponentsEnergy =
  Pkg :: nat
  Core :: nat
  DRAM :: nat
  Uncore :: nat

text \<open>What the methods of one \<^verbatim>\<open>powerInterface\<close> value return when they are called;
  \<^verbatim>\<open>StopPower\<close> returns nothing.\<close>

record powerInterface =
  impl_GetEnergyFromDram :: "nat \<times> string option"
  impl_GetEnergyFromCore :: "nat \<times> string option"
  impl_GetEnergyFromUncore :: "nat \<times> string option"
  impl_GetEnergyFromPackage :: "nat \<times> string option"
  impl_GetNodeComponentsEnergy :: "(int \<times> NodeComponentsEnergy) list"
  impl_IsSystemCollectionSupported :: bool

text \<open>The package variable \<^verbatim>\<open>powerImpl\<close> holds one of the three package-level
  backend pointers.\<close>

datatype backend = dummyImpl | sysfsImpl | msrImpl

text \<open>The package variable \<^verbatim>\<open>useMSR\<close> is initialised to false and assigned nowhere
  in the file ("it looks MSR on kvm or hyper-v is not working").\<close>

definition useMSR :: bool where
  "useMSR = False"

text \<open>\<^verbatim>\<open>func init()\<close>: the value of \<^verbatim>\<open>powerImpl\<close> when package initialisation is
  over, from the value \<open>use_msr\<close> of the variable \<^verbatim>\<open>useMSR\<close> at that moment and the
  answers of the backends. Both operands of \<^verbatim>\<open>&&\<close> are free of effects here.\<close>

definition init :: "bool \<Rightarrow> (backend \<Rightarrow> powerInterface) \<Rightarrow> backend" where
  "init use_msr impls =
     (if impl_IsSystemCollectionSupported (impls sysfsImpl) then sysfsImpl
      else if impl_IsSystemCollectionSupported (impls msrImpl) \<and> use_msr then msrImpl
      else dummyImpl)"

definition GetEnergyFromDram :: "(backend \<Rightarrow> powerInterface) \<Rightarrow> backend \<Rightarrow> nat \<times> string option" where
  "GetEnergyFromDram impls powerImpl = impl_GetEnergyFromDram (impls powerImpl)"

definition GetEnergyFromCore :: "(backend \<Rightarrow> powerInterface) \<Rightarrow> backend \<Rightarrow> nat \<times> string option" where
  "GetEnergyFromCore impls powerImpl = impl_GetEnergyFromCore (impls powerImpl)"

definition GetEnergyFromUncore :: "(backend \<Rightarrow> powerInterface) \<Rightarrow> backend \<Rightarrow> nat \<times> string option" where
  "GetEnergyFromUncore impls powerImpl = impl_GetEnergyFromUncore (impls powerImpl)"

definition GetEnergyFromPackage :: "(backend \<Rightarrow> powerInterface) \<Rightarrow> backend \<Rightarrow> nat \<times> string option" where
  "GetEnergyFromPackage impls powerImpl = impl_GetEnergyFromPackage (impls powerImpl)"

definition GetNodeComponentsEnergy ::
  "(backend \<Rightarrow> powerInterface) \<Rightarrow> backend \<Rightarrow> (int \<times> NodeComponentsEnergy) list" where
  "GetNodeComponentsEnergy impls powerImpl = impl_GetNodeComponentsEnergy (impls powerImpl)"

definition IsSystemCollectionSupported :: "(backend \<Rightarrow> powerInterface) \<Rightarrow> backend \<Rightarrow> bool" where
  "IsSystemCollectionSupported impls powerImpl = impl_IsSystemCollectionSupported (impls powerImpl)"

section \<open>Package collector\<close>

subsection \<open>The records of the collector\<close>

text \<open>Modelled from the spec: the node metric record (\<^verbatim>\<open>collector_metric.NodeMetrics\<close>) is
  not among the source files. Of section 3's fields those written by the functions
  below are kept: the component energy channels, with one producer per socket, the
  platform energy channel, with one producer per sensor, and one GPU energy channel
  per device.\<close>

record node_metrics =
  EnergyInCore :: "int channel"
  EnergyInDRAM :: "int channel"
  EnergyInUncore :: "int channel"
  EnergyInPkg :: "int channel"
  EnergyInPlatform :: "string channel"
  EnergyInGPU :: "nat \<rightharpoonup> nat channel"

text \<open>Modelled from the spec: \<^verbatim>\<open>NewNodeMetrics\<close>: no channel has been written.\<close>

definition NewNodeMetrics :: node_metrics where
  "NewNodeMetrics = \<lparr>EnergyInCore = new_channel, EnergyInDRAM = new_channel,
     EnergyInUncore = new_channel, EnergyInPkg = new_channel,
     EnergyInPlatform = new_channel, EnergyInGPU = Map.empty\<rparr>"

text \<open>Modelled from the spec: \<^verbatim>\<open>AddLastestPlatformEnergy\<close>: every sensor of the map sets
  its aggregate on the platform energy channel. The Go map holds \<^verbatim>\<open>float64\<close>
  millijoules; they are natural numbers here.\<close>

definition AddLastestPlatformEnergy :: "(string \<times> nat) list \<Rightarrow> node_metrics \<Rightarrow> node_metrics" where
  "AddLastestPlatformEnergy platformEnergy ne =
     fold (\<lambda>(sensorID, energy) ne.
             ne\<lparr>EnergyInPlatform := set_aggregate sensorID (int energy) (EnergyInPlatform ne)\<rparr>)
          platformEnergy ne"

text \<open>Modelled from the spec: \<^verbatim>\<open>AddNodeComponentsEnergy\<close>: every socket of the map sets
  its aggregate on the four component energy channels.\<close>

definition AddNodeComponentsEnergy ::
  "(int \<times> NodeComponentsEnergy) list \<Rightarrow> node_metrics \<Rightarrow> node_metrics" where
  "AddNodeComponentsEnergy componentsEnergy ne =
     fold (\<lambda>(pkgID, energy) ne.
             ne\<lparr>EnergyInCore := set_aggregate pkgID (int (Core energy)) (EnergyInCore ne),
                EnergyInDRAM := set_aggregate pkgID (int (DRAM energy)) (EnergyInDRAM ne),
                EnergyInUncore := set_aggregate pkgID (int (Uncore energy)) (EnergyInUncore ne),
                EnergyInPkg := set_aggregate pkgID (int (Pkg energy)) (EnergyInPkg ne)\<rparr>)
          componentsEnergy ne"

text \<open>Modelled from the spec: \<^verbatim>\<open>AddNodeGPUEnergy\<close>: "per-device node-level energy is
  read independently via add_delta of millijoules since last read"; the slice index is
  the device.\<close>

definition AddNodeGPUEnergy :: "nat list \<Rightarrow> node_metrics \<Rightarrow> node_metrics" where
  "AddNodeGPUEnergy gpuEnergy ne =
     fold (\<lambda>(gpuID, energy) ne.
             ne\<lparr>EnergyInGPU := (EnergyInGPU ne)(gpuID \<mapsto>
                  add_delta (int energy)
                    (case EnergyInGPU ne gpuID of None \<Rightarrow> new_channel | Some ch \<Rightarrow> ch))\<rparr>)
          (zip [0 ..< length gpuEnergy] gpuEnergy) ne"

text \<open>Modelled from the spec: the container metric record
  (\<^verbatim>\<open>collector_metric.ContainerMetrics\<close>) is not among the source files. The accelerator
  source writes its map of counter channels, \<^verbatim>\<open>CounterStats\<close>, a Go map from the
  channel name to a pointer: a name without channel gives the nil pointer.\<close>

record container_metrics =
  CounterStats :: "string \<rightharpoonup> string channel"

text \<open>The fields of \<^verbatim>\<open>Collector\<close> that the functions below read or write.\<close>

record collector =
  ContainersMetrics :: "string \<rightharpoonup> container_metrics"
  NodeMetrics :: node_metrics
  NodeCPUFrequency :: "(int \<times> nat) list"
  systemProcessName :: string

subsection \<open>What the collector calls\<close>

record ProcessUtilizationSample =
  SmUtil :: nat
  MemUtil :: nat

text \<open>
  Everything outside the two collector files that their functions call, as it answers
  during one collection interval: the ACPI power meter, the power models, the
  components package (with the value of \<^verbatim>\<open>powerImpl\<close>), the configuration, the
  catalog of counters, the accelerator package and the container-identity resolver. A
  Go function with a result and an error returns both: a pair, whose second component
  is the error, if any. \<open>metric_AddNewCurr_error v\<close> is the error with which the
  missing \<^verbatim>\<open>AddNewCurr\<close> rejects the increment \<open>v\<close>, if it rejects it.
\<close>

record environment =
  acpi_IsPowerSupported :: bool
  acpi_GetEnergyFromHost :: "(string \<times> nat) list \<times> string option"
  acpi_GetCPUCoreFrequency :: "(int \<times> nat) list"
  model_IsNodePlatformPowerModelEnabled :: bool
  model_GetEstimatedNodePlatformPower :: "node_metrics \<Rightarrow> (string \<times> nat) list"
  model_IsNodeComponentPowerModelEnabled :: bool
  model_GetNodeComponentPowers :: "node_metrics \<Rightarrow> (int \<times> NodeComponentsEnergy) list"
  components_impls :: "backend \<Rightarrow> powerInterface"
  components_powerImpl :: backend
  config_EnabledGPU :: bool
  config_GPUSMUtilization :: string
  config_GPUMemUtilization :: string
  metric_AvailableCounters :: "string list"
  metric_AddNewCurr_error :: "nat \<Rightarrow> string option"
  accelerator_GetGpuEnergyPerGPU :: "nat list"
  accelerator_GetGpus :: "nat list"
  accelerator_GetProcessResourceUtilizationPerDevice ::
    "nat \<Rightarrow> (nat \<times> ProcessUtilizationSample) list \<times> string option"
  cgroup_GetContainerIDFromPID :: "nat \<Rightarrow> string \<times> string option"

text \<open>What a function does besides changing the collector: the calls that read an
  energy, frequency or utilization source, and the lines given to \<^verbatim>\<open>klog\<close> with their
  verbosity: \<^verbatim>\<open>klog.V(n).Infoln(err)\<close> with the error, \<^verbatim>\<open>klog.V(n).Infof\<close> with the
  format and its arguments. Every function below returns the collector and its events
  in order.\<close>

datatype logarg = ArgNat nat | ArgString string

datatype event =
    KlogInfoln nat string
  | KlogInfof nat string "logarg list"
  | AcpiGetEnergyFromHost
  | ModelGetEstimatedNodePlatformPower
  | ComponentsGetNodeComponentsEnergy
  | ModelGetNodeComponentPowers
  | AcpiGetCPUCoreFrequency
  | AcceleratorGetGpuEnergyPerGPU
  | AcceleratorGetProcessResourceUtilizationPerDevice nat

subsection \<open>Node energy\<close>

definition updatePlatformEnergy :: "environment \<Rightarrow> collector \<Rightarrow> collector \<times> event list" where
  "updatePlatformEnergy env c =
     (let (nodePlatformEnergy, events) =
            (if acpi_IsPowerSupported env then
               (fst (acpi_GetEnergyFromHost env), [AcpiGetEnergyFromHost])
             else if model_IsNodePlatformPowerModelEnabled env then
               (model_GetEstimatedNodePlatformPower env (NodeMetrics c),
                [ModelGetEstimatedNodePlatformPower])
             else ([], []))
      in (c\<lparr>NodeMetrics := AddLastestPlatformEnergy nodePlatformEnergy (NodeMetrics c)\<rparr>,
          events))"

definition updateNodeComponentsEnergy :: "environment \<Rightarrow> collector \<Rightarrow> collector \<times> event list" where
  "updateNodeComponentsEnergy env c =
     (let (nodeComponentsEnergy, events) =
            (if IsSystemCollectionSupported (components_impls env) (components_powerImpl env) then
               (GetNodeComponentsEnergy (components_impls env) (components_powerImpl env),
                [ComponentsGetNodeComponentsEnergy])
             else if model_IsNodeComponentPowerModelEnabled env then
               (model_GetNodeComponentPowers env (NodeMetrics c), [ModelGetNodeComponentPowers])
             else ([], []))
      in (c\<lparr>NodeMetrics := AddNodeComponentsEnergy nodeComponentsEnergy (NodeMetrics c)\<rparr>,
          events))"

definition updateNodeGPUEnergy :: "environment \<Rightarrow> collector \<Rightarrow> collector \<times> event list" where
  "updateNodeGPUEnergy env c =
     (if config_EnabledGPU env then
        (let gpuEnergy = accelerator_GetGpuEnergyPerGPU env
         in (c\<lparr>NodeMetrics := AddNodeGPUEnergy gpuEnergy (NodeMetrics c)\<rparr>,
             [AcceleratorGetGpuEnergyPerGPU]))
      else (c, []))"

definition updateNodeAvgCPUFrequency :: "environment \<Rightarrow> collector \<Rightarrow> collector \<times> event list" where
  "updateNodeAvgCPUFrequency env c =
     (c\<lparr>NodeCPUFrequency := acpi_GetCPUCoreFrequency env\<rparr>, [AcpiGetCPUCoreFrequency])"

definition updateNodeEnergyMetrics :: "environment \<Rightarrow> collector \<Rightarrow> collector \<times> event list" where
  "updateNodeEnergyMetrics env c =
     (let (c1, events1) = updatePlatformEnergy env c;
          (c2, events2) = updateNodeComponentsEnergy env c1;
          (c3, events3) = updateNodeAvgCPUFrequency env c2;
          (c4, events4) = updateNodeGPUEnergy env c3
      in (c4, events1 @ events2 @ events3 @ events4))"

text \<open>\<open>occurs_before a b events\<close>: \<open>a\<close> occurs in \<open>events\<close>, and \<open>b\<close> occurs after
  the first \<open>a\<close>.\<close>

fun occurs_before :: "'a \<Rightarrow> 'a \<Rightarrow> 'a list \<Rightarrow> bool" where
  "occurs_before a b [] = False"
| "occurs_before a b (x # xs) = (if x = a then b \<in> set xs else occurs_before a b xs)"

subsection \<open>Accelerator metrics\<close>

text \<open>Modelled from the spec: \<^verbatim>\<open>NewContainerMetrics\<close> is not among the source files.
  Section 3 lists among the fields of a container record its counter channels, keyed by
  the names of the counter catalog, and its accelerator channels (SM utilization,
  memory utilization); the code keeps both kinds in \<^verbatim>\<open>CounterStats\<close>. A new record has
  a fresh channel for every name of the catalog and for the two accelerator names.\<close>

definition NewContainerMetrics :: "environment \<Rightarrow> container_metrics" where
  "NewContainerMetrics env =
     \<lparr>CounterStats = map_of (map (\<lambda>name. (name, new_channel))
        (metric_AvailableCounters env
         @ [config_GPUSMUtilization env, config_GPUMemUtilization env]))\<rparr>"

text \<open>Modelled from the spec: \<^verbatim>\<open>createContainersMetricsIfNotExist\<close> is a method of the
  collector defined in another file: a container record is "created lazily on first
  observation of a container id". The cgroup id, the pid and the flag only serve to
  find the names of the new record.\<close>

definition createContainersMetricsIfNotExist ::
  "environment \<Rightarrow> string \<Rightarrow> nat \<Rightarrow> nat \<Rightarrow> bool \<Rightarrow> collector \<Rightarrow> collector" where
  "createContainersMetricsIfNotExist env containerID cGroupID pid withCGroupID c =
     (case ContainersMetrics c containerID of
        Some _ \<Rightarrow> c
      | None \<Rightarrow> c\<lparr>ContainersMetrics := (ContainersMetrics c)(containerID \<mapsto>
                    NewContainerMetrics env)\<rparr>)"

text \<open>Modelled from the spec: \<^verbatim>\<open>AddNewCurr\<close> of a channel is \<open>add_delta\<close>; it returns
  an error: "rejecting a write with a numeric domain violation is fatal to the write
  only; the channel remains consistent". Which increments it rejects is not said:
  that is the environment's \<open>metric_AddNewCurr_error\<close>.\<close>

definition AddNewCurr ::
  "environment \<Rightarrow> nat \<Rightarrow> string channel \<Rightarrow> string channel \<times> string option" where
  "AddNewCurr env newCurr ch =
     (case metric_AddNewCurr_error env newCurr of
        None \<Rightarrow> (add_delta (int newCurr) ch, None)
      | Some e \<Rightarrow> (ch, Some e))"

text \<open>The statement
  \<^verbatim>\<open>if err = c.ContainersMetrics[containerID].CounterStats[name].AddNewCurr(uint64(v)); err != nil { klog.V(5).Infoln(err) }\<close>.
  Both maps hold pointers: a missing container or a missing channel is the nil
  pointer, and the call panics on it.\<close>

definition CounterStats_AddNewCurr ::
  "environment \<Rightarrow> string \<Rightarrow> string \<Rightarrow> nat \<Rightarrow> collector \<Rightarrow> panic + collector \<times> event list" where
  "CounterStats_AddNewCurr env containerID name v c =
     (case ContainersMetrics c containerID of
        None \<Rightarrow> Inl NilPointerDereference
      | Some cm \<Rightarrow>
          (case CounterStats cm name of
             None \<Rightarrow> Inl NilPointerDereference
           | Some ch \<Rightarrow>
               (let (ch', err) = AddNewCurr env v ch
                in Inr (c\<lparr>ContainersMetrics := (ContainersMetrics c)(containerID \<mapsto>
                            cm\<lparr>CounterStats := (CounterStats cm)(name \<mapsto> ch')\<rparr>)\<rparr>,
                        case err of None \<Rightarrow> [] | Some e \<Rightarrow> [KlogInfoln 5 e]))))"

text \<open>The body of the loop over the pids of one device: the resolver, with the
  system-process name and a line at verbosity 5 when it returns an error; the container
  record; the two writes.\<close>

definition attributeProcessUtilization ::
  "environment \<Rightarrow> nat \<times> ProcessUtilizationSample \<Rightarrow> collector \<Rightarrow> panic + collector \<times> event list" where
  "attributeProcessUtilization env sample c =
     (let (pid, processUtilization) = sample;
          (resolved, err) = cgroup_GetContainerIDFromPID env pid;
          containerID = (if err \<noteq> None then systemProcessName c else resolved);
          events = (case err of
                      None \<Rightarrow> []
                    | Some e \<Rightarrow>
                        [KlogInfof 5 ''failed to resolve container for Pid %v: %v, set containerID=%s''
                           [ArgNat pid, ArgString e, ArgString (systemProcessName c)]]);
          c1 = createContainersMetricsIfNotExist env containerID 0 pid False c
      in case CounterStats_AddNewCurr env containerID (config_GPUSMUtilization env)
                (SmUtil processUtilization) c1 of
           Inl p \<Rightarrow> Inl p
         | Inr (c2, events2) \<Rightarrow>
             (case CounterStats_AddNewCurr env containerID (config_GPUMemUtilization env)
                     (MemUtil processUtilization) c2 of
                Inl p \<Rightarrow> Inl p
              | Inr (c3, events3) \<Rightarrow> Inr (c3, events @ events2 @ events3)))"

text \<open>The loop over the map of one device; a Go map is ranged over in some order: the
  list of its entries in that order.\<close>

fun attributeDevice ::
  "environment \<Rightarrow> (nat \<times> ProcessUtilizationSample) list \<Rightarrow> collector
     \<Rightarrow> panic + collector \<times> event list" where
  "attributeDevice env [] c = Inr (c, [])"
| "attributeDevice env (sample # samples) c =
     (case attributeProcessUtilization env sample c of
        Inl p \<Rightarrow> Inl p
      | Inr (c1, events1) \<Rightarrow>
          (case attributeDevice env samples c1 of
             Inl p \<Rightarrow> Inl p
           | Inr (c2, events2) \<Rightarrow> Inr (c2, events1 @ events2)))"

text \<open>The body of the loop over the devices: the query, which assigns the map and the
  error; the line logged at verbosity 2 when the error is not nil; and, in either case,
  the loop over the map that the query returned.\<close>

definition updateDevice ::
  "environment \<Rightarrow> nat \<Rightarrow> collector \<Rightarrow> panic + collector \<times> event list" where
  "updateDevice env device c =
     (let (processesUtilization, err) =
            accelerator_GetProcessResourceUtilizationPerDevice env device;
          events = AcceleratorGetProcessResourceUtilizationPerDevice device
                   # (case err of None \<Rightarrow> [] | Some e \<Rightarrow> [KlogInfoln 2 e])
      in case attributeDevice env processesUtilization c of
           Inl p \<Rightarrow> Inl p
         | Inr (c1, events1) \<Rightarrow> Inr (c1, events @ events1))"

fun updateDevices ::
  "environment \<Rightarrow> nat list \<Rightarrow> collector \<Rightarrow> panic + collector \<times> event list" where
  "updateDevices env [] c = Inr (c, [])"
| "updateDevices env (device # devices) c =
     (case updateDevice env device c of
        Inl p \<Rightarrow> Inl p
      | Inr (c1, events1) \<Rightarrow>
          (case updateDevices env devices c1 of
             Inl p \<Rightarrow> Inl p
           | Inr (c2, events2) \<Rightarrow> Inr (c2, events1 @ events2)))"

text \<open>\<^verbatim>\<open>updateAcceleratorMetrics\<close>: the loop over \<^verbatim>\<open>accelerator.GetGpus()\<close>. The
  time stamp of the last query only sets the window handed to the library, whose answer
  for the interval is part of the environment; it is not modelled.\<close>

definition updateAcceleratorMetrics :: "environment \<Rightarrow> collector \<Rightarrow> panic + collector \<times> event list" where
  "updateAcceleratorMetrics env c = updateDevices env (accelerator_GetGpus env) c"

section \<open>Auxiliary notions and example inputs\<close>

text \<open>The channel \<open>name\<close> of container \<open>containerID\<close>, a fresh channel if the
  container or the channel does not exist.\<close>

definition counter_channel :: "collector \<Rightarrow> string \<Rightarrow> string \<Rightarrow> string channel" where
  "counter_channel c containerID name =
     (case ContainersMetrics c containerID of
        None \<Rightarrow> new_channel
      | Some cm \<Rightarrow> (case CounterStats cm name of None \<Rightarrow> new_channel | Some ch \<Rightarrow> ch))"

text \<open>Every container record of the collector has the two accelerator channels, as
  every record that \<open>NewContainerMetrics\<close> makes has.\<close>

definition accelerator_channels_present :: "environment \<Rightarrow> collector \<Rightarrow> bool" where
  "accelerator_channels_present env c =
     (\<forall>containerID cm. ContainersMetrics c containerID = Some cm \<longrightarrow>
        CounterStats cm (config_GPUSMUtilization env) \<noteq> None
        \<and> CounterStats cm (config_GPUMemUtilization env) \<noteq> None)"

text \<open>The samples that the devices return in one interval, in the order of the
  devices, whether or not an error comes with them.\<close>

definition samples_of :: "environment \<Rightarrow> nat list \<Rightarrow> (nat \<times> ProcessUtilizationSample) list" where
  "samples_of env devices =
     concat (map (\<lambda>device. fst (accelerator_GetProcessResourceUtilizationPerDevice env device))
                 devices)"

text \<open>The container that a pid's sample belongs to when the system-process name is
  \<open>sys\<close>: the resolved container, or \<open>sys\<close> when the resolver returns an error.\<close>

definition target_container :: "environment \<Rightarrow> string \<Rightarrow> nat \<Rightarrow> string" where
  "target_container env sys pid =
     (case snd (cgroup_GetContainerIDFromPID env pid) of
        None \<Rightarrow> fst (cgroup_GetContainerIDFromPID env pid)
      | Some e \<Rightarrow> sys)"

text \<open>What a write of \<open>v\<close> adds to its channel: \<open>v\<close>, or nothing when
  \<^verbatim>\<open>AddNewCurr\<close> rejects it.\<close>

definition accepted :: "environment \<Rightarrow> nat \<Rightarrow> int" where
  "accepted env v = (case metric_AddNewCurr_error env v of None \<Rightarrow> int v | Some e \<Rightarrow> 0)"

text \<open>What one sample adds to the channel \<open>name\<close> of the container \<open>containerID\<close>:
  its SM utilization if the container is the sample's and the channel is the
  SM-utilization channel, its memory utilization if the channel is the
  memory-utilization channel, and nothing otherwise.\<close>

definition contribution ::
  "environment \<Rightarrow> string \<Rightarrow> string \<Rightarrow> string \<Rightarrow> nat \<times> ProcessUtilizationSample \<Rightarrow> int" where
  "contribution env sys containerID name sample =
     (if target_container env sys (fst sample) = containerID then
        (if name = config_GPUSMUtilization env then accepted env (SmUtil (snd sample)) else 0)
        + (if name = config_GPUMemUtilization env then accepted env (MemUtil (snd sample)) else 0)
      else 0)"

definition contributions ::
  "environment \<Rightarrow> string \<Rightarrow> string \<Rightarrow> string \<Rightarrow> (nat \<times> ProcessUtilizationSample) list \<Rightarrow> int" where
  "contributions env sys containerID name samples =
     sum_list (map (contribution env sys containerID name) samples)"

text \<open>The lines logged for one sample, and the events of one device.\<close>

definition sample_events :: "environment \<Rightarrow> string \<Rightarrow> nat \<times> ProcessUtilizationSample \<Rightarrow> event list" where
  "sample_events env sys sample =
     (case snd (cgroup_GetContainerIDFromPID env (fst sample)) of
        None \<Rightarrow> []
      | Some e \<Rightarrow>
          [KlogInfof 5 ''failed to resolve container for Pid %v: %v, set containerID=%s''
             [ArgNat (fst sample), ArgString e, ArgString sys]])
     @ (case metric_AddNewCurr_error env (SmUtil (snd sample)) of
          None \<Rightarrow> [] | Some e \<Rightarrow> [KlogInfoln 5 e])
     @ (case metric_AddNewCurr_error env (MemUtil (snd sample)) of
          None \<Rightarrow> [] | Some e \<Rightarrow> [KlogInfoln 5 e])"

definition device_events :: "environment \<Rightarrow> string \<Rightarrow> nat \<Rightarrow> event list" where
  "device_events env sys device =
     AcceleratorGetProcessResourceUtilizationPerDevice device
     # (case snd (accelerator_GetProcessResourceUtilizationPerDevice env device) of
          None \<Rightarrow> [] | Some e \<Rightarrow> [KlogInfoln 2 e])
     @ concat (map (sample_events env sys)
                   (fst (accelerator_GetProcessResourceUtilizationPerDevice env device)))"

text \<open>\<open>attributed env samples c c'\<close>: the collector \<open>c'\<close> is \<open>c\<close> after the samples
  have been attributed: the same system-process name, a container record for the
  container of every sample, and on every channel of every container the sum of what
  the samples add to it.\<close>

definition attributed ::
  "environment \<Rightarrow> (nat \<times> ProcessUtilizationSample) list \<Rightarrow> collector \<Rightarrow> collector \<Rightarrow> bool" where
  "attributed env samples c c' =
     (systemProcessName c' = systemProcessName c
      \<and> accelerator_channels_present env c'
      \<and> (\<forall>x. ContainersMetrics c' x \<noteq> None \<longleftrightarrow>
             ContainersMetrics c x \<noteq> None
             \<or> x \<in> target_container env (systemProcessName c) ` fst ` set samples)
      \<and> (\<forall>x n. counter_channel c' x n =
             add_delta (contributions env (systemProcessName c) x n samples)
               (counter_channel c x n)))"

text \<open>A node on which no source is available and no feature is enabled, and a
  collector that has recorded nothing yet; the examples below adjust them.\<close>

definition no_backend :: powerInterface where
  "no_backend = \<lparr>impl_GetEnergyFromDram = (0, None), impl_GetEnergyFromCore = (0, None),
     impl_GetEnergyFromUncore = (0, None), impl_GetEnergyFromPackage = (0, None),
     impl_GetNodeComponentsEnergy = [], impl_IsSystemCollectionSupported = False\<rparr>"

definition idle_environment :: environment where
  "idle_environment =
     \<lparr>acpi_IsPowerSupported = False,
      acpi_GetEnergyFromHost = ([], None),
      acpi_GetCPUCoreFrequency = [],
      model_IsNodePlatformPowerModelEnabled = False,
      model_GetEstimatedNodePlatformPower = (\<lambda>ne. []),
      model_IsNodeComponentPowerModelEnabled = False,
      model_GetNodeComponentPowers = (\<lambda>ne. []),
      components_impls = (\<lambda>b. no_backend),
      components_powerImpl = dummyImpl,
      config_EnabledGPU = False,
      config_GPUSMUtilization = ''gpu_sm_util'',
      config_GPUMemUtilization = ''gpu_mem_util'',
      metric_AvailableCounters = [''cpu_cycles'', ''cpu_instr'', ''cache_miss''],
      metric_AddNewCurr_error = (\<lambda>v. None),
      accelerator_GetGpuEnergyPerGPU = [],
      accelerator_GetGpus = [],
      accelerator_GetProcessResourceUtilizationPerDevice = (\<lambda>device. ([], None)),
      cgroup_GetContainerIDFromPID = (\<lambda>pid. ('''', Some ''no container''))\<rparr>"

definition empty_collector :: collector where
  "empty_collector = \<lparr>ContainersMetrics = Map.empty, NodeMetrics = NewNodeMetrics,
     NodeCPUFrequency = [], systemProcessName = ''system_processes''\<rparr>"


text \<open>A node with one GPU that reports three processes: the resolver finds pid 42 in
  \<open>containerA\<close> and returns an error for the pids 7 and 8.\<close>

definition unresolved_pids_environment :: environment where
  "unresolved_pids_environment =
     idle_environment\<lparr>
       config_EnabledGPU := True,
       accelerator_GetGpus := [0],
       accelerator_GetProcessResourceUtilizationPerDevice := (\<lambda>device.
         ([(7, \<lparr>SmUtil = 30, MemUtil = 10\<rparr>), (42, \<lparr>SmUtil = 50, MemUtil = 20\<rparr>),
           (8, \<lparr>SmUtil = 5, MemUtil = 2\<rparr>)], None)),
       cgroup_GetContainerIDFromPID := (\<lambda>pid.
         if pid = 42 then (''containerA'', None) else ('''', Some ''no container''))\<rparr>"

section \<open>Properties of the counter channel\<close>

lemma add_delta_zero [simp]: "add_delta 0 ch = ch"
  by (simp add: add_delta_def)

lemma add_delta_add_delta: "add_delta a (add_delta b ch) = add_delta (b + a) ch"
  by (simp add: add_delta_def add.assoc)

text \<open>The scenarios that the specification and the repository's test give for one
  producer: two aggregate writes in a row, 10 then 20, give the current value 10,
  before and after the commit; so do the two writes in two intervals; a producer that
  goes from 10 to 5 has restarted, and the committed current value is 5; and the
  contributions of two producers add up.\<close>

lemma set_aggregate_twice:
  "curr (set_aggregate p 20 (set_aggregate p 10 new_channel)) = 10
   \<and> curr (commit (set_aggregate p 20 (set_aggregate p 10 new_channel))) = 10
   \<and> curr (commit (set_aggregate p 20 (commit (set_aggregate p 10 new_channel)))) = 10"
  by (simp add: set_aggregate_def commit_def new_channel_def)

lemma set_aggregate_restart:
  "curr (commit (set_aggregate p 5 (commit (set_aggregate p 10 new_channel)))) = 5"
  by (simp add: set_aggregate_def commit_def new_channel_def)

lemma set_aggregate_two_producers:
  "p \<noteq> q \<Longrightarrow> curr (commit (set_aggregate q 7 (set_aggregate p 10 new_channel))) = 17"
  by (simp add: set_aggregate_def commit_def new_channel_def)

section \<open>Properties of the slice handler\<close>

subsection \<open>Discovery of the cgroup root\<close>

lemma InitSliceHandler_statReaders:
  "statReaders (fst (InitSliceHandler stat_ok)) = Map.empty"
  by (simp add: InitSliceHandler_def Init_def)

lemma InitSliceHandler_legacy_not_probed:
  "filepath_Join baseCGroupPath ''cpu'' \<notin> set (snd (InitSliceHandler stat_ok))
   \<and> filepath_Join baseCGroupPath ''memory'' \<notin> set (snd (InitSliceHandler stat_ok))
   \<and> filepath_Join baseCGroupPath ''blkio'' \<notin> set (snd (InitSliceHandler stat_ok))"
  by (simp add: InitSliceHandler_def filepath_Join_def baseCGroupPath_def
      KubePodCGroupPath_def SystemCGroupPath_def)

text \<open>
  Claim C5, as stated: InitSliceHandler probes exactly three candidates in order and the
  first candidate that exists determines the three top paths. On a node where neither
  slice path exists the function has called \<^verbatim>\<open>os.Stat\<close> twice, not three times: the
  legacy per-controller paths are not among the probed paths, and they become the top
  paths although the probe answers for no path at all that it exists.
\<close>

theorem InitSliceHandler_three_probes_counterexample:
  "\<not> (length (snd (InitSliceHandler (\<lambda>p. False))) = 3)
   \<and> snd (InitSliceHandler (\<lambda>p. False)) = [''/sys/fs/cgroup/kubepods.slice'', ''/sys/fs/cgroup/system.slice'']
   \<and> CPUTopPath (fst (InitSliceHandler (\<lambda>p. False))) = ''/sys/fs/cgroup/cpu''
   \<and> MemoryTopPath (fst (InitSliceHandler (\<lambda>p. False))) = ''/sys/fs/cgroup/memory''
   \<and> IOTopPath (fst (InitSliceHandler (\<lambda>p. False))) = ''/sys/fs/cgroup/blkio''
   \<and> ''/sys/fs/cgroup/cpu'' \<notin> set (snd (InitSliceHandler (\<lambda>p. False)))"
  by (simp add: InitSliceHandler_def Init_def filepath_Join_def baseCGroupPath_def
      KubePodCGroupPath_def SystemCGroupPath_def)

text \<open>
  Claim C5, amended. InitSliceHandler probes at most two candidates, in order: the
  kube-pods slice path, then (only if that one does not exist) the system slice path.
  The first of the two that exists becomes the CPU, the memory and the IO top path.
  If neither exists, the top paths are the legacy per-controller tree (cpu, memory and
  blkio under the base cgroup path), which is taken without being probed. The handler
  starts with no stat readers.
\<close>

theorem InitSliceHandler_first_existing_slice_else_legacy:
  "(stat_ok KubePodCGroupPath \<longrightarrow>
      snd (InitSliceHandler stat_ok) = [KubePodCGroupPath]
      \<and> CPUTopPath (fst (InitSliceHandler stat_ok)) = KubePodCGroupPath
      \<and> MemoryTopPath (fst (InitSliceHandler stat_ok)) = KubePodCGroupPath
      \<and> IOTopPath (fst (InitSliceHandler stat_ok)) = KubePodCGroupPath)
   \<and> (\<not> stat_ok KubePodCGroupPath \<and> stat_ok SystemCGroupPath \<longrightarrow>
      snd (InitSliceHandler stat_ok) = [KubePodCGroupPath, SystemCGroupPath]
      \<and> CPUTopPath (fst (InitSliceHandler stat_ok)) = SystemCGroupPath
      \<and> MemoryTopPath (fst (InitSliceHandler stat_ok)) = SystemCGroupPath
      \<and> IOTopPath (fst (InitSliceHandler stat_ok)) = SystemCGroupPath)
   \<and> (\<not> stat_ok KubePodCGroupPath \<and> \<not> stat_ok SystemCGroupPath \<longrightarrow>
      snd (InitSliceHandler stat_ok) = [KubePodCGroupPath, SystemCGroupPath]
      \<and> CPUTopPath (fst (InitSliceHandler stat_ok)) = filepath_Join baseCGroupPath ''cpu''
      \<and> MemoryTopPath (fst (InitSliceHandler stat_ok)) = filepath_Join baseCGroupPath ''memory''
      \<and> IOTopPath (fst (InitSliceHandler stat_ok)) = filepath_Join baseCGroupPath ''blkio'')
   \<and> statReaders (fst (InitSliceHandler stat_ok)) = Map.empty"
  by (simp add: InitSliceHandler_def Init_def)

theorem InitSliceHandler_first_existing_slice_else_legacy_witness:
  "snd (InitSliceHandler (\<lambda>p. p = SystemCGroupPath)) = [KubePodCGroupPath, SystemCGroupPath]
   \<and> CPUTopPath (fst (InitSliceHandler (\<lambda>p. p = SystemCGroupPath))) = ''/sys/fs/cgroup/system.slice''
   \<and> MemoryTopPath (fst (InitSliceHandler (\<lambda>p. p = SystemCGroupPath))) = ''/sys/fs/cgroup/system.slice''
   \<and> IOTopPath (fst (InitSliceHandler (\<lambda>p. p = SystemCGroupPath))) = ''/sys/fs/cgroup/system.slice''"
  using InitSliceHandler_first_existing_slice_else_legacy [of "\<lambda>p. p = SystemCGroupPath"]
  by (simp add: KubePodCGroupPath_def SystemCGroupPath_def)

subsection \<open>Stat readers of a container\<close>

lemma convertToStandard_Nil [simp]: "convertToStandard standardNames [] = []"
  by (simp add: convertToStandard_def)

text \<open>
  Claim C8. For every handler and every container id for which no stat readers are
  registered, GetStats returns the empty map; the function has no error result.
  GetStandardStat, on the handler instance, then returns normally with the conversion
  of the empty map, which has no entry: no channel is updated.
\<close>

theorem GetStats_unregistered_is_empty:
  "statReaders s containerID = None \<Longrightarrow>
     GetStats Read s containerID = []
     \<and> GetStandardStat standardNames Read (Some s) containerID = Inr []"
  by (simp add: GetStats_def GetStandardStat_def)

theorem GetStats_unregistered_is_empty_witness:
  "statReaders (fst (InitSliceHandler (\<lambda>p. True))) ''abc'' = None
   \<and> GetStats (\<lambda>r. [(''cpuacct.usage'', 5::nat)]) (fst (InitSliceHandler (\<lambda>p. True))) ''abc'' = []
   \<and> GetStandardStat (\<lambda>k. [k]) (\<lambda>r. [(''cpuacct.usage'', 5::nat)])
        (SetSliceHandler (\<lambda>p. True)) ''abc'' = Inr []"
proof -
  have h: "statReaders (fst (InitSliceHandler (\<lambda>p. True))) ''abc'' = None"
    by (simp add: InitSliceHandler_def Init_def)
  from GetStats_unregistered_is_empty [OF h, of "\<lambda>r. [(''cpuacct.usage'', 5::nat)]" "\<lambda>k. [k]"] h
  show ?thesis
    unfolding SetSliceHandler_def by blast
qed

lemma TryInitStatReaders_registered:
  "statReaders s containerID = Some rs \<Longrightarrow>
     TryInitStatReaders search (Some s) containerID = Inr s"
  by (simp add: TryInitStatReaders_def GetStatReaders_def)

lemma TryInitStatReaders_returns:
  "\<exists>s'. TryInitStatReaders search (Some s) containerID = Inr s'
        \<and> statReaders s' containerID \<noteq> None
        \<and> (\<forall>c. c \<noteq> containerID \<longrightarrow> statReaders s' c = statReaders s c)
        \<and> CPUTopPath s' = CPUTopPath s \<and> MemoryTopPath s' = MemoryTopPath s
        \<and> IOTopPath s' = IOTopPath s"
  by (cases "statReaders s containerID")
     (auto simp: TryInitStatReaders_def GetStatReaders_def Let_def)

lemma TryInitStatReaders_unregistered:
  "statReaders s containerID = None \<Longrightarrow>
     \<exists>s' p1 p2 p3. TryInitStatReaders search (Some s) containerID = Inr s'
        \<and> statReaders s' containerID =
            Some [CPUStatReader p1, MemoryStatReader p2, IOStatReader p3]"
  by (simp add: TryInitStatReaders_def GetStatReaders_def Let_def)

lemma TryInitStatReaders_one_reader_each:
  assumes "\<forall>c rs. statReaders s c = Some rs \<longrightarrow> one_reader_each rs"
    and "TryInitStatReaders search (Some s) containerID = Inr s'"
  shows "\<forall>c rs. statReaders s' c = Some rs \<longrightarrow> one_reader_each rs"
proof (cases "statReaders s containerID")
  case None
  with assms(2) have
    "\<exists>p1 p2 p3. s' = s\<lparr>statReaders := (statReaders s)(containerID \<mapsto>
        [CPUStatReader p1, MemoryStatReader p2, IOStatReader p3])\<rparr>"
    by (auto simp: TryInitStatReaders_def GetStatReaders_def Let_def)
  with assms(1) show ?thesis by (auto split: if_splits)
next
  case (Some rs)
  with assms(2) have "s' = s"
    by (simp add: TryInitStatReaders_def GetStatReaders_def)
  with assms(1) show ?thesis by simp
qed

text \<open>
  Claim C10. TryInitStatReaders is idempotent. If stat readers are already registered
  for the container id, the call returns the handler as it was. Whatever the handler,
  the first call returns a handler on which a further call with the same id changes
  nothing (whatever the file system search would answer then). An id registered by
  the call has exactly one CPU, one memory and one IO reader, and if every registered
  id had one reader of each kind before the call, so it is after it.
\<close>

theorem TryInitStatReaders_idempotent:
  "(statReaders s containerID \<noteq> None \<longrightarrow>
      TryInitStatReaders search (Some s) containerID = Inr s)
   \<and> (\<exists>s'. TryInitStatReaders search (Some s) containerID = Inr s'
         \<and> TryInitStatReaders search' (Some s') containerID = Inr s'
         \<and> (statReaders s containerID = None \<longrightarrow>
              (\<exists>p1 p2 p3. statReaders s' containerID =
                 Some [CPUStatReader p1, MemoryStatReader p2, IOStatReader p3]))
         \<and> ((\<forall>c rs. statReaders s c = Some rs \<longrightarrow> one_reader_each rs) \<longrightarrow>
              (\<forall>c rs. statReaders s' c = Some rs \<longrightarrow> one_reader_each rs)))"
proof -
  obtain s' where s': "TryInitStatReaders search (Some s) containerID = Inr s'"
    and reg: "statReaders s' containerID \<noteq> None"
    using TryInitStatReaders_returns [of search s containerID] by blast
  from reg obtain rs where "statReaders s' containerID = Some rs"
    by (cases "statReaders s' containerID") simp_all
  then have again: "TryInitStatReaders search' (Some s') containerID = Inr s'"
    by (rule TryInitStatReaders_registered)
  have fresh: "statReaders s containerID = None \<longrightarrow>
      (\<exists>p1 p2 p3. statReaders s' containerID =
         Some [CPUStatReader p1, MemoryStatReader p2, IOStatReader p3])"
  proof
    assume "statReaders s containerID = None"
    from TryInitStatReaders_unregistered [OF this, of search] s'
    show "\<exists>p1 p2 p3. statReaders s' containerID =
         Some [CPUStatReader p1, MemoryStatReader p2, IOStatReader p3]"
      by fastforce
  qed
  have inv: "(\<forall>c rs. statReaders s c = Some rs \<longrightarrow> one_reader_each rs) \<longrightarrow>
      (\<forall>c rs. statReaders s' c = Some rs \<longrightarrow> one_reader_each rs)"
  proof
    assume "\<forall>c rs. statReaders s c = Some rs \<longrightarrow> one_reader_each rs"
    then show "\<forall>c rs. statReaders s' c = Some rs \<longrightarrow> one_reader_each rs"
      using s' by (rule TryInitStatReaders_one_reader_each)
  qed
  have first: "statReaders s containerID \<noteq> None \<longrightarrow>
      TryInitStatReaders search (Some s) containerID = Inr s"
    by (cases "statReaders s containerID") (simp_all add: TryInitStatReaders_registered)
  have "TryInitStatReaders search (Some s) containerID = Inr s'
         \<and> TryInitStatReaders search' (Some s') containerID = Inr s'
         \<and> (statReaders s containerID = None \<longrightarrow>
              (\<exists>p1 p2 p3. statReaders s' containerID =
                 Some [CPUStatReader p1, MemoryStatReader p2, IOStatReader p3]))
         \<and> ((\<forall>c rs. statReaders s c = Some rs \<longrightarrow> one_reader_each rs) \<longrightarrow>
              (\<forall>c rs. statReaders s' c = Some rs \<longrightarrow> one_reader_each rs))"
    using s' again fresh inv by (intro conjI)
  then have "\<exists>s'. TryInitStatReaders search (Some s) containerID = Inr s'
         \<and> TryInitStatReaders search' (Some s') containerID = Inr s'
         \<and> (statReaders s containerID = None \<longrightarrow>
              (\<exists>p1 p2 p3. statReaders s' containerID =
                 Some [CPUStatReader p1, MemoryStatReader p2, IOStatReader p3]))
         \<and> ((\<forall>c rs. statReaders s c = Some rs \<longrightarrow> one_reader_each rs) \<longrightarrow>
              (\<forall>c rs. statReaders s' c = Some rs \<longrightarrow> one_reader_each rs))"
    by (rule exI)
  with first show ?thesis by (rule conjI)
qed

theorem TryInitStatReaders_idempotent_witness:
  "statReaders (fst (InitSliceHandler (\<lambda>p. True))) ''abc'' = None
   \<and> (\<exists>s'. TryInitStatReaders (\<lambda>top c. top @ ''/'' @ c)
               (Some (fst (InitSliceHandler (\<lambda>p. True)))) ''abc'' = Inr s'
          \<and> TryInitStatReaders (\<lambda>top c. ''/elsewhere'') (Some s') ''abc'' = Inr s'
          \<and> (\<exists>p1 p2 p3. statReaders s' ''abc'' =
                Some [CPUStatReader p1, MemoryStatReader p2, IOStatReader p3]))"
proof -
  have h: "statReaders (fst (InitSliceHandler (\<lambda>p. True))) ''abc'' = None"
    by (simp add: InitSliceHandler_def Init_def)
  from TryInitStatReaders_idempotent
         [of "fst (InitSliceHandler (\<lambda>p. True))" "''abc''"
             "\<lambda>top c. top @ ''/'' @ c" "\<lambda>top c. ''/elsewhere''"]
  obtain s' where
    "TryInitStatReaders (\<lambda>top c. top @ ''/'' @ c)
       (Some (fst (InitSliceHandler (\<lambda>p. True)))) ''abc'' = Inr s'"
    "TryInitStatReaders (\<lambda>top c. ''/elsewhere'') (Some s') ''abc'' = Inr s'"
    "statReaders (fst (InitSliceHandler (\<lambda>p. True))) ''abc'' = None \<longrightarrow>
       (\<exists>p1 p2 p3. statReaders s' ''abc'' =
          Some [CPUStatReader p1, MemoryStatReader p2, IOStatReader p3])"
    by (elim conjE exE)
  with h show ?thesis by (intro conjI exI [of _ s']) simp_all
qed

lemma TryInitStatReaders_example:
  "TryInitStatReaders (\<lambda>top c. top @ ''/'' @ c) (SetSliceHandler (\<lambda>p. p = SystemCGroupPath)) ''abc''
     = Inr \<lparr>statReaders = [''abc'' \<mapsto> [CPUStatReader ''/sys/fs/cgroup/system.slice/abc'',
                 MemoryStatReader ''/sys/fs/cgroup/system.slice/abc'',
                 IOStatReader ''/sys/fs/cgroup/system.slice/abc'']],
             CPUTopPath = ''/sys/fs/cgroup/system.slice'',
             MemoryTopPath = ''/sys/fs/cgroup/system.slice'',
             IOTopPath = ''/sys/fs/cgroup/system.slice''\<rparr>"
  by (simp add: TryInitStatReaders_def SetSliceHandler_def InitSliceHandler_def Init_def
      GetStatReaders_def GetCPUTopPath_def GetMemoryTopPath_def GetIOTopPath_def
      KubePodCGroupPath_def SystemCGroupPath_def Let_def)

lemma TryInitStatReaders_legacy_example:
  "\<exists>s'. TryInitStatReaders (\<lambda>top c. top @ ''/'' @ c) (SetSliceHandler (\<lambda>p. False)) ''abc'' = Inr s'
     \<and> statReaders s' ''abc'' = Some [CPUStatReader ''/sys/fs/cgroup/cpu/abc'',
                 MemoryStatReader ''/sys/fs/cgroup/memory/abc'',
                 IOStatReader ''/sys/fs/cgroup/blkio/abc'']"
  by (simp add: TryInitStatReaders_def SetSliceHandler_def InitSliceHandler_def Init_def
      GetStatReaders_def GetCPUTopPath_def GetMemoryTopPath_def GetIOTopPath_def
      KubePodCGroupPath_def SystemCGroupPath_def baseCGroupPath_def filepath_Join_def Let_def)

section \<open>Properties of the backend selection\<close>

lemma init_never_msr: "init useMSR impls \<noteq> msrImpl"
  by (simp add: init_def useMSR_def)

text \<open>
  Claim C4. The backend is chosen by init in this order: the sysfs backend if it reports
  supported; otherwise the MSR backend if its flag is set and it reports supported;
  otherwise the dummy backend. Every read (GetEnergyFromDram, GetEnergyFromCore,
  GetEnergyFromUncore, GetEnergyFromPackage, GetNodeComponentsEnergy) returns what the
  chosen backend returns, and does not depend on what the two other backends would
  return.
\<close>

theorem init_selects_backend_and_reads_dispatch:
  "(impl_IsSystemCollectionSupported (impls sysfsImpl) \<longrightarrow> init use_msr impls = sysfsImpl)
   \<and> (\<not> impl_IsSystemCollectionSupported (impls sysfsImpl)
        \<and> use_msr \<and> impl_IsSystemCollectionSupported (impls msrImpl) \<longrightarrow>
          init use_msr impls = msrImpl)
   \<and> (\<not> impl_IsSystemCollectionSupported (impls sysfsImpl)
        \<and> \<not> (use_msr \<and> impl_IsSystemCollectionSupported (impls msrImpl)) \<longrightarrow>
          init use_msr impls = dummyImpl)
   \<and> GetEnergyFromDram impls (init use_msr impls) =
        impl_GetEnergyFromDram (impls (init use_msr impls))
   \<and> GetEnergyFromCore impls (init use_msr impls) =
        impl_GetEnergyFromCore (impls (init use_msr impls))
   \<and> GetEnergyFromUncore impls (init use_msr impls) =
        impl_GetEnergyFromUncore (impls (init use_msr impls))
   \<and> GetEnergyFromPackage impls (init use_msr impls) =
        impl_GetEnergyFromPackage (impls (init use_msr impls))
   \<and> GetNodeComponentsEnergy impls (init use_msr impls) =
        impl_GetNodeComponentsEnergy (impls (init use_msr impls))
   \<and> (others (init use_msr impls) = impls (init use_msr impls) \<longrightarrow>
        GetEnergyFromDram others (init use_msr impls) = GetEnergyFromDram impls (init use_msr impls)
        \<and> GetEnergyFromCore others (init use_msr impls) = GetEnergyFromCore impls (init use_msr impls)
        \<and> GetEnergyFromUncore others (init use_msr impls) = GetEnergyFromUncore impls (init use_msr impls)
        \<and> GetEnergyFromPackage others (init use_msr impls) = GetEnergyFromPackage impls (init use_msr impls)
        \<and> GetNodeComponentsEnergy others (init use_msr impls) =
            GetNodeComponentsEnergy impls (init use_msr impls))"
  by (simp add: init_def GetEnergyFromDram_def GetEnergyFromCore_def GetEnergyFromUncore_def
      GetEnergyFromPackage_def GetNodeComponentsEnergy_def)

theorem init_selects_backend_and_reads_dispatch_witness:
  "init True (\<lambda>b. if b = msrImpl
       then no_backend\<lparr>impl_GetEnergyFromDram := (7, None), impl_IsSystemCollectionSupported := True\<rparr>
       else no_backend) = msrImpl
   \<and> GetEnergyFromDram (\<lambda>b. if b = msrImpl
       then no_backend\<lparr>impl_GetEnergyFromDram := (7, None), impl_IsSystemCollectionSupported := True\<rparr>
       else no_backend) msrImpl = (7, None)
   \<and> init useMSR (\<lambda>b. if b = sysfsImpl
       then no_backend\<lparr>impl_GetEnergyFromPackage := (9, None), impl_IsSystemCollectionSupported := True\<rparr>
       else no_backend) = sysfsImpl
   \<and> init useMSR (\<lambda>b. no_backend) = dummyImpl"
proof -
  let ?msr = "\<lambda>b. if b = msrImpl
       then no_backend\<lparr>impl_GetEnergyFromDram := (7, None), impl_IsSystemCollectionSupported := True\<rparr>
       else no_backend"
  let ?sysfs = "\<lambda>b. if b = sysfsImpl
       then no_backend\<lparr>impl_GetEnergyFromPackage := (9, None), impl_IsSystemCollectionSupported := True\<rparr>
       else no_backend"
  have 1: "init True ?msr = msrImpl"
    using init_selects_backend_and_reads_dispatch [of ?msr True ?msr]
    by (simp add: no_backend_def)
  have 2: "GetEnergyFromDram ?msr msrImpl = (7, None)"
    using init_selects_backend_and_reads_dispatch [of ?msr True ?msr] 1
    by (simp add: no_backend_def)
  have 3: "init useMSR ?sysfs = sysfsImpl"
    using init_selects_backend_and_reads_dispatch [of ?sysfs useMSR ?sysfs]
    by (simp add: no_backend_def)
  have 4: "init useMSR (\<lambda>b. no_backend) = dummyImpl"
    using init_selects_backend_and_reads_dispatch [of "\<lambda>b. no_backend" useMSR "\<lambda>b. no_backend"]
    by (simp add: no_backend_def)
  from 1 2 3 4 show ?thesis by (intro conjI)
qed

section \<open>Properties of the node energy update\<close>

lemma AddLastestPlatformEnergy_Nil [simp]: "AddLastestPlatformEnergy [] ne = ne"
  by (simp add: AddLastestPlatformEnergy_def)

lemma AddNodeComponentsEnergy_Nil [simp]: "AddNodeComponentsEnergy [] ne = ne"
  by (simp add: AddNodeComponentsEnergy_def)

lemma updatePlatformEnergy_supported:
  "acpi_IsPowerSupported env \<Longrightarrow>
     updatePlatformEnergy env c =
       (c\<lparr>NodeMetrics := AddLastestPlatformEnergy (fst (acpi_GetEnergyFromHost env)) (NodeMetrics c)\<rparr>,
        [AcpiGetEnergyFromHost])"
  by (simp add: updatePlatformEnergy_def)

lemma updatePlatformEnergy_model:
  "\<not> acpi_IsPowerSupported env \<Longrightarrow> model_IsNodePlatformPowerModelEnabled env \<Longrightarrow>
     updatePlatformEnergy env c =
       (c\<lparr>NodeMetrics := AddLastestPlatformEnergy
              (model_GetEstimatedNodePlatformPower env (NodeMetrics c)) (NodeMetrics c)\<rparr>,
        [ModelGetEstimatedNodePlatformPower])"
  by (simp add: updatePlatformEnergy_def)

lemma updatePlatformEnergy_none:
  "\<not> acpi_IsPowerSupported env \<Longrightarrow> \<not> model_IsNodePlatformPowerModelEnabled env \<Longrightarrow>
     updatePlatformEnergy env c = (c, [])"
  by (simp add: updatePlatformEnergy_def)

lemma updatePlatformEnergy_events:
  "set (snd (updatePlatformEnergy env c)) \<subseteq> {AcpiGetEnergyFromHost, ModelGetEstimatedNodePlatformPower}"
  by (simp add: updatePlatformEnergy_def)

lemma updateNodeComponentsEnergy_events:
  "set (snd (updateNodeComponentsEnergy env c)) \<subseteq>
     {ComponentsGetNodeComponentsEnergy, ModelGetNodeComponentPowers}"
  by (simp add: updateNodeComponentsEnergy_def)

lemma updateNodeGPUEnergy_events:
  "set (snd (updateNodeGPUEnergy env c)) \<subseteq> {AcceleratorGetGpuEnergyPerGPU}"
  by (simp add: updateNodeGPUEnergy_def Let_def)

lemma updateNodeAvgCPUFrequency_events:
  "snd (updateNodeAvgCPUFrequency env c) = [AcpiGetCPUCoreFrequency]"
  by (simp add: updateNodeAvgCPUFrequency_def)

lemma updateNodeEnergyMetrics_unfold:
  "updateNodeEnergyMetrics env c =
     (fst (updateNodeGPUEnergy env
        (fst (updateNodeAvgCPUFrequency env
           (fst (updateNodeComponentsEnergy env (fst (updatePlatformEnergy env c))))))),
      snd (updatePlatformEnergy env c)
      @ snd (updateNodeComponentsEnergy env (fst (updatePlatformEnergy env c)))
      @ snd (updateNodeAvgCPUFrequency env
           (fst (updateNodeComponentsEnergy env (fst (updatePlatformEnergy env c)))))
      @ snd (updateNodeGPUEnergy env
           (fst (updateNodeAvgCPUFrequency env
              (fst (updateNodeComponentsEnergy env (fst (updatePlatformEnergy env c))))))))"
  by (simp add: updateNodeEnergyMetrics_def split_def Let_def)

lemma occurs_before_append_disjoint:
  "a \<notin> set xs \<Longrightarrow> occurs_before a b (xs @ ys) = occurs_before a b ys"
  by (induction xs) auto

lemma occurs_before_not_later:
  "b \<notin> set ys \<Longrightarrow> a \<notin> set xs \<Longrightarrow> \<not> occurs_before a b (xs @ ys)"
proof (induction xs)
  case Nil
  then show ?case by (induction ys) auto
next
  case (Cons x xs)
  then show ?case by auto
qed

lemma occurs_before_split:
  "a \<in> set xs \<Longrightarrow> b \<in> set ys \<Longrightarrow> occurs_before a b (xs @ ys)"
  by (induction xs) auto

text \<open>
  Claim C6, as stated: the model value that stands in for the meter is flagged
  distinctly from a measured value. On a node whose meter is supported and reads 100 mJ
  on sensor \<open>acpi0\<close>, and on a node without meter whose platform power model is
  enabled and estimates 100 mJ for \<open>acpi0\<close>, updatePlatformEnergy leaves the same
  collector: nothing in it tells the estimate from the measurement.
\<close>

theorem updatePlatformEnergy_provenance_counterexample:
  "acpi_IsPowerSupported (idle_environment\<lparr>acpi_IsPowerSupported := True,
                             acpi_GetEnergyFromHost := ([(''acpi0'', 100)], None)\<rparr>)
   \<and> \<not> acpi_IsPowerSupported (idle_environment\<lparr>model_IsNodePlatformPowerModelEnabled := True,
                             model_GetEstimatedNodePlatformPower := (\<lambda>ne. [(''acpi0'', 100)])\<rparr>)
   \<and> fst (updatePlatformEnergy
          (idle_environment\<lparr>acpi_IsPowerSupported := True,
                             acpi_GetEnergyFromHost := ([(''acpi0'', 100)], None)\<rparr>)
          empty_collector)
   = fst (updatePlatformEnergy
          (idle_environment\<lparr>model_IsNodePlatformPowerModelEnabled := True,
                             model_GetEstimatedNodePlatformPower := (\<lambda>ne. [(''acpi0'', 100)])\<rparr>)
          empty_collector)"
  by (simp add: updatePlatformEnergy_def idle_environment_def)

text \<open>
  Claim C6, amended. In every interval updatePlatformEnergy records the energy read
  from the ACPI platform meter whenever the meter reports power as supported, whether
  or not the platform power model is enabled (measured wins). Only when the meter is
  unsupported and the model is enabled, it records the model's estimate, computed from
  the node record, instead. When neither holds, it reads nothing and leaves the
  collector unchanged. Both values reach the node record through the same
  AddLastestPlatformEnergy call: the function attaches no mark of provenance.
\<close>

theorem updatePlatformEnergy_measured_wins:
  "(acpi_IsPowerSupported env \<longrightarrow>
      updatePlatformEnergy env c =
        (c\<lparr>NodeMetrics := AddLastestPlatformEnergy (fst (acpi_GetEnergyFromHost env)) (NodeMetrics c)\<rparr>,
         [AcpiGetEnergyFromHost]))
   \<and> (\<not> acpi_IsPowerSupported env \<and> model_IsNodePlatformPowerModelEnabled env \<longrightarrow>
      updatePlatformEnergy env c =
        (c\<lparr>NodeMetrics := AddLastestPlatformEnergy
               (model_GetEstimatedNodePlatformPower env (NodeMetrics c)) (NodeMetrics c)\<rparr>,
         [ModelGetEstimatedNodePlatformPower]))
   \<and> (\<not> acpi_IsPowerSupported env \<and> \<not> model_IsNodePlatformPowerModelEnabled env \<longrightarrow>
      updatePlatformEnergy env c = (c, []))"
  using updatePlatformEnergy_supported [of env c] updatePlatformEnergy_model [of env c]
    updatePlatformEnergy_none [of env c]
  by blast

theorem updatePlatformEnergy_measured_wins_witness:
  "agg (EnergyInPlatform (NodeMetrics (fst (updatePlatformEnergy
          (idle_environment\<lparr>acpi_IsPowerSupported := True,
                             acpi_GetEnergyFromHost := ([(''acpi0'', 100)], None),
                             model_IsNodePlatformPowerModelEnabled := True,
                             model_GetEstimatedNodePlatformPower := (\<lambda>ne. [(''acpi0'', 42)])\<rparr>)
          empty_collector)))) = 100
   \<and> snd (updatePlatformEnergy
          (idle_environment\<lparr>acpi_IsPowerSupported := True,
                             acpi_GetEnergyFromHost := ([(''acpi0'', 100)], None),
                             model_IsNodePlatformPowerModelEnabled := True,
                             model_GetEstimatedNodePlatformPower := (\<lambda>ne. [(''acpi0'', 42)])\<rparr>)
          empty_collector) = [AcpiGetEnergyFromHost]"
  using updatePlatformEnergy_measured_wins
    [of "idle_environment\<lparr>acpi_IsPowerSupported := True,
                             acpi_GetEnergyFromHost := ([(''acpi0'', 100)], None),
                             model_IsNodePlatformPowerModelEnabled := True,
                             model_GetEstimatedNodePlatformPower := (\<lambda>ne. [(''acpi0'', 42)])\<rparr>"
        empty_collector]
  by (simp add: idle_environment_def empty_collector_def NewNodeMetrics_def
      AddLastestPlatformEnergy_def set_aggregate_def new_channel_def)

text \<open>
  Claim C7, as stated: updateNodeEnergyMetrics reads the node component energies
  before the platform energy. On a node whose platform meter and whose selected
  components backend are both supported, the reads are the platform meter, then the
  node components, then the CPU frequency: the components read does not come before
  the platform read, it comes after it.
\<close>

theorem updateNodeEnergyMetrics_order_counterexample:
  "snd (updateNodeEnergyMetrics
          (idle_environment\<lparr>acpi_IsPowerSupported := True,
             components_impls := (\<lambda>b. no_backend\<lparr>impl_IsSystemCollectionSupported := True\<rparr>),
             components_powerImpl := sysfsImpl\<rparr>)
          empty_collector)
     = [AcpiGetEnergyFromHost, ComponentsGetNodeComponentsEnergy, AcpiGetCPUCoreFrequency]
   \<and> \<not> occurs_before ComponentsGetNodeComponentsEnergy AcpiGetEnergyFromHost
        (snd (updateNodeEnergyMetrics
          (idle_environment\<lparr>acpi_IsPowerSupported := True,
             components_impls := (\<lambda>b. no_backend\<lparr>impl_IsSystemCollectionSupported := True\<rparr>),
             components_powerImpl := sysfsImpl\<rparr>)
          empty_collector))"
  by (simp add: updateNodeEnergyMetrics_def updatePlatformEnergy_def
      updateNodeComponentsEnergy_def updateNodeAvgCPUFrequency_def updateNodeGPUEnergy_def
      IsSystemCollectionSupported_def idle_environment_def no_backend_def)

text \<open>
  Claim C7, amended. updateNodeEnergyMetrics reads the node-level sources in the
  order: platform energy, then node component energies, then the CPU-frequency probe,
  then the GPU energy. Its events are those of updatePlatformEnergy, followed by those
  of updateNodeComponentsEnergy on the collector that the platform update returned,
  followed by the frequency read, followed by those of updateNodeGPUEnergy; so no read
  of node components (measured or modelled) comes before a platform read, no
  frequency read comes before a components read, and a components read that happens
  comes after every platform read that happens.
\<close>

theorem updateNodeEnergyMetrics_platform_then_components_then_frequency:
  "snd (updateNodeEnergyMetrics env c) =
      snd (updatePlatformEnergy env c)
      @ snd (updateNodeComponentsEnergy env (fst (updatePlatformEnergy env c)))
      @ [AcpiGetCPUCoreFrequency]
      @ snd (updateNodeGPUEnergy env
           (fst (updateNodeAvgCPUFrequency env
              (fst (updateNodeComponentsEnergy env (fst (updatePlatformEnergy env c)))))))
   \<and> set (snd (updatePlatformEnergy env c))
        \<subseteq> {AcpiGetEnergyFromHost, ModelGetEstimatedNodePlatformPower}
   \<and> set (snd (updateNodeComponentsEnergy env (fst (updatePlatformEnergy env c))))
        \<subseteq> {ComponentsGetNodeComponentsEnergy, ModelGetNodeComponentPowers}
   \<and> (cread \<in> {ComponentsGetNodeComponentsEnergy, ModelGetNodeComponentPowers}
        \<and> pread \<in> {AcpiGetEnergyFromHost, ModelGetEstimatedNodePlatformPower} \<longrightarrow>
        \<not> occurs_before cread pread (snd (updateNodeEnergyMetrics env c))
        \<and> \<not> occurs_before AcpiGetCPUCoreFrequency cread (snd (updateNodeEnergyMetrics env c))
        \<and> \<not> occurs_before AcpiGetCPUCoreFrequency pread (snd (updateNodeEnergyMetrics env c))
        \<and> (pread \<in> set (snd (updateNodeEnergyMetrics env c))
             \<and> cread \<in> set (snd (updateNodeEnergyMetrics env c)) \<longrightarrow>
             occurs_before pread cread (snd (updateNodeEnergyMetrics env c)))
        \<and> (pread \<in> set (snd (updateNodeEnergyMetrics env c)) \<longrightarrow>
             occurs_before pread AcpiGetCPUCoreFrequency (snd (updateNodeEnergyMetrics env c)))
        \<and> (cread \<in> set (snd (updateNodeEnergyMetrics env c)) \<longrightarrow>
             occurs_before cread AcpiGetCPUCoreFrequency (snd (updateNodeEnergyMetrics env c))))"
proof -
  let ?ps = "snd (updatePlatformEnergy env c)"
  let ?cs = "snd (updateNodeComponentsEnergy env (fst (updatePlatformEnergy env c)))"
  let ?gs = "snd (updateNodeGPUEnergy env
           (fst (updateNodeAvgCPUFrequency env
              (fst (updateNodeComponentsEnergy env (fst (updatePlatformEnergy env c)))))))"
  let ?es = "snd (updateNodeEnergyMetrics env c)"
  have es: "?es = ?ps @ ?cs @ [AcpiGetCPUCoreFrequency] @ ?gs"
    by (simp add: updateNodeEnergyMetrics_unfold updateNodeAvgCPUFrequency_events)
  have ps: "set ?ps \<subseteq> {AcpiGetEnergyFromHost, ModelGetEstimatedNodePlatformPower}"
    by (rule updatePlatformEnergy_events)
  have cs: "set ?cs \<subseteq> {ComponentsGetNodeComponentsEnergy, ModelGetNodeComponentPowers}"
    by (rule updateNodeComponentsEnergy_events)
  have gs: "set ?gs \<subseteq> {AcceleratorGetGpuEnergyPerGPU}"
    by (rule updateNodeGPUEnergy_events)
  have order: "\<not> occurs_before cread pread ?es
        \<and> \<not> occurs_before AcpiGetCPUCoreFrequency cread ?es
        \<and> \<not> occurs_before AcpiGetCPUCoreFrequency pread ?es
        \<and> (pread \<in> set ?es \<and> cread \<in> set ?es \<longrightarrow> occurs_before pread cread ?es)
        \<and> (pread \<in> set ?es \<longrightarrow> occurs_before pread AcpiGetCPUCoreFrequency ?es)
        \<and> (cread \<in> set ?es \<longrightarrow> occurs_before cread AcpiGetCPUCoreFrequency ?es)"
    if cread_in: "cread \<in> {ComponentsGetNodeComponentsEnergy, ModelGetNodeComponentPowers}"
      and pread_in: "pread \<in> {AcpiGetEnergyFromHost, ModelGetEstimatedNodePlatformPower}"
  proof -
    from cread_in ps gs have comp_ps: "cread \<notin> set ?ps" and comp_gs: "cread \<notin> set ?gs" by auto
    from pread_in cs gs have plat_cs: "pread \<notin> set ?cs" and plat_gs: "pread \<notin> set ?gs" by auto
    from ps cs gs have f_ps: "AcpiGetCPUCoreFrequency \<notin> set ?ps"
      and f_cs: "AcpiGetCPUCoreFrequency \<notin> set ?cs"
      and f_gs: "AcpiGetCPUCoreFrequency \<notin> set ?gs" by auto
    from cread_in pread_in have ne: "cread \<noteq> pread" "cread \<noteq> AcpiGetCPUCoreFrequency"
      "pread \<noteq> AcpiGetCPUCoreFrequency" by auto
    have 1: "\<not> occurs_before cread pread ?es"
      unfolding es using occurs_before_not_later [of pread "?cs @ [AcpiGetCPUCoreFrequency] @ ?gs" cread ?ps]
        plat_cs plat_gs comp_ps ne by simp
    have 2: "\<not> occurs_before AcpiGetCPUCoreFrequency cread ?es"
      using occurs_before_not_later [of cread "[AcpiGetCPUCoreFrequency] @ ?gs" AcpiGetCPUCoreFrequency "?ps @ ?cs"]
        comp_gs f_ps f_cs ne unfolding es by simp
    have 3: "\<not> occurs_before AcpiGetCPUCoreFrequency pread ?es"
      using occurs_before_not_later [of pread "[AcpiGetCPUCoreFrequency] @ ?gs" AcpiGetCPUCoreFrequency "?ps @ ?cs"]
        plat_gs f_ps f_cs ne unfolding es by simp
    have 4: "occurs_before pread cread ?es" if "pread \<in> set ?es" "cread \<in> set ?es"
    proof -
      from that plat_cs plat_gs ne have "pread \<in> set ?ps" unfolding es by auto
      moreover from that comp_ps comp_gs ne have "cread \<in> set (?cs @ [AcpiGetCPUCoreFrequency] @ ?gs)"
        unfolding es by auto
      ultimately show ?thesis unfolding es by (rule occurs_before_split)
    qed
    have 5: "occurs_before pread AcpiGetCPUCoreFrequency ?es" if "pread \<in> set ?es"
    proof -
      from that plat_cs plat_gs ne have "pread \<in> set ?ps" unfolding es by auto
      moreover have "AcpiGetCPUCoreFrequency \<in> set (?cs @ [AcpiGetCPUCoreFrequency] @ ?gs)" by simp
      ultimately show ?thesis unfolding es by (rule occurs_before_split)
    qed
    have 6: "occurs_before cread AcpiGetCPUCoreFrequency ?es" if "cread \<in> set ?es"
    proof -
      from that comp_ps comp_gs ne have "cread \<in> set (?ps @ ?cs)" unfolding es by auto
      moreover have "AcpiGetCPUCoreFrequency \<in> set ([AcpiGetCPUCoreFrequency] @ ?gs)" by simp
      ultimately have "occurs_before cread AcpiGetCPUCoreFrequency ((?ps @ ?cs) @ [AcpiGetCPUCoreFrequency] @ ?gs)"
        by (rule occurs_before_split)
      then show ?thesis unfolding es by simp
    qed
    from 1 2 3 4 5 6 show ?thesis by blast
  qed
  from es ps cs order show ?thesis by blast
qed

theorem updateNodeEnergyMetrics_platform_then_components_then_frequency_witness:
  "occurs_before AcpiGetEnergyFromHost ComponentsGetNodeComponentsEnergy
     (snd (updateNodeEnergyMetrics
          (idle_environment\<lparr>acpi_IsPowerSupported := True,
             components_impls := (\<lambda>b. no_backend\<lparr>impl_IsSystemCollectionSupported := True\<rparr>),
             components_powerImpl := sysfsImpl\<rparr>)
          empty_collector))
   \<and> occurs_before ComponentsGetNodeComponentsEnergy AcpiGetCPUCoreFrequency
     (snd (updateNodeEnergyMetrics
          (idle_environment\<lparr>acpi_IsPowerSupported := True,
             components_impls := (\<lambda>b. no_backend\<lparr>impl_IsSystemCollectionSupported := True\<rparr>),
             components_powerImpl := sysfsImpl\<rparr>)
          empty_collector))"
proof -
  let ?env = "idle_environment\<lparr>acpi_IsPowerSupported := True,
             components_impls := (\<lambda>b. no_backend\<lparr>impl_IsSystemCollectionSupported := True\<rparr>),
             components_powerImpl := sysfsImpl\<rparr>"
  have events: "snd (updateNodeEnergyMetrics ?env empty_collector)
      = [AcpiGetEnergyFromHost, ComponentsGetNodeComponentsEnergy, AcpiGetCPUCoreFrequency]"
    by (simp add: updateNodeEnergyMetrics_def updatePlatformEnergy_def
      updateNodeComponentsEnergy_def updateNodeAvgCPUFrequency_def updateNodeGPUEnergy_def
      IsSystemCollectionSupported_def idle_environment_def no_backend_def)
  have "AcpiGetEnergyFromHost \<in> set (snd (updateNodeEnergyMetrics ?env empty_collector))"
    and "ComponentsGetNodeComponentsEnergy \<in> set (snd (updateNodeEnergyMetrics ?env empty_collector))"
    by (simp_all add: events)
  with updateNodeEnergyMetrics_platform_then_components_then_frequency
         [of ?env empty_collector ComponentsGetNodeComponentsEnergy AcpiGetEnergyFromHost]
  show ?thesis by blast
qed

section \<open>Properties of the GPU energy update\<close>

text \<open>
  Claim C9. If the GPU feature is disabled in the configuration, updateNodeGPUEnergy
  reads nothing and returns the collector, and so its node metrics record, exactly as
  it was. If the feature is enabled, it reads the per-GPU energy once and adds it to
  the node record. Hence the node record differs after the call only when the feature
  is enabled.
\<close>

theorem updateNodeGPUEnergy_disabled_is_identity:
  "(\<not> config_EnabledGPU env \<longrightarrow> updateNodeGPUEnergy env c = (c, []))
   \<and> (config_EnabledGPU env \<longrightarrow>
        updateNodeGPUEnergy env c =
          (c\<lparr>NodeMetrics := AddNodeGPUEnergy (accelerator_GetGpuEnergyPerGPU env) (NodeMetrics c)\<rparr>,
           [AcceleratorGetGpuEnergyPerGPU]))
   \<and> (NodeMetrics (fst (updateNodeGPUEnergy env c)) \<noteq> NodeMetrics c \<longrightarrow> config_EnabledGPU env)"
  by (simp add: updateNodeGPUEnergy_def Let_def)

theorem updateNodeGPUEnergy_disabled_is_identity_witness:
  "updateNodeGPUEnergy (idle_environment\<lparr>accelerator_GetGpuEnergyPerGPU := [5, 8]\<rparr>) empty_collector
     = (empty_collector, [])
   \<and> map_option agg (EnergyInGPU (NodeMetrics (fst (updateNodeGPUEnergy
        (idle_environment\<lparr>config_EnabledGPU := True, accelerator_GetGpuEnergyPerGPU := [5, 8]\<rparr>)
        empty_collector))) 1) = Some 8"
proof -
  have 1: "updateNodeGPUEnergy (idle_environment\<lparr>accelerator_GetGpuEnergyPerGPU := [5, 8]\<rparr>)
      empty_collector = (empty_collector, [])"
    using updateNodeGPUEnergy_disabled_is_identity
      [of "idle_environment\<lparr>accelerator_GetGpuEnergyPerGPU := [5, 8]\<rparr>" empty_collector]
    by (simp add: idle_environment_def)
  have "[0..<Suc (Suc 0)] = [0, Suc 0]" by (simp add: upt_rec)
  then have 2: "map_option agg (EnergyInGPU (NodeMetrics (fst (updateNodeGPUEnergy
        (idle_environment\<lparr>config_EnabledGPU := True, accelerator_GetGpuEnergyPerGPU := [5, 8]\<rparr>)
        empty_collector))) 1) = Some 8"
    using updateNodeGPUEnergy_disabled_is_identity
      [of "idle_environment\<lparr>config_EnabledGPU := True, accelerator_GetGpuEnergyPerGPU := [5, 8]\<rparr>"
          empty_collector]
    by (simp add: idle_environment_def empty_collector_def NewNodeMetrics_def
        AddNodeGPUEnergy_def add_delta_def new_channel_def)
  from 1 2 show ?thesis by (rule conjI)
qed

section \<open>Properties of the accelerator metrics update\<close>

subsection \<open>One write, one sample, one device\<close>

lemma map_of_catalog:
  "map_of (map (\<lambda>name. (name, v)) catalog) k = (if k \<in> set catalog then Some v else None)"
  by (induction catalog) auto

lemma CounterStats_NewContainerMetrics:
  "CounterStats (NewContainerMetrics env) name =
     (if name \<in> set (metric_AvailableCounters env)
         \<or> name = config_GPUSMUtilization env \<or> name = config_GPUMemUtilization env
      then Some new_channel else None)"
  by (auto simp add: NewContainerMetrics_def map_of_catalog simp del: map_append)

lemma accelerator_channels_present_empty:
  "ContainersMetrics c = Map.empty \<Longrightarrow> accelerator_channels_present env c"
  by (simp add: accelerator_channels_present_def)

lemma create_systemProcessName [simp]:
  "systemProcessName (createContainersMetricsIfNotExist env containerID cg pid w c) =
     systemProcessName c"
  by (simp add: createContainersMetricsIfNotExist_def split: option.splits)

lemma create_exists:
  "ContainersMetrics (createContainersMetricsIfNotExist env containerID cg pid w c) x \<noteq> None
     \<longleftrightarrow> x = containerID \<or> ContainersMetrics c x \<noteq> None"
  by (auto simp: createContainersMetricsIfNotExist_def split: option.splits)

lemma create_counter_channel [simp]:
  "counter_channel (createContainersMetricsIfNotExist env containerID cg pid w c) x name =
     counter_channel c x name"
  by (auto simp: createContainersMetricsIfNotExist_def counter_channel_def
      CounterStats_NewContainerMetrics split: option.splits)

lemma create_present:
  "accelerator_channels_present env c \<Longrightarrow>
     accelerator_channels_present env (createContainersMetricsIfNotExist env containerID cg pid w c)"
  by (auto simp: createContainersMetricsIfNotExist_def accelerator_channels_present_def
      CounterStats_NewContainerMetrics split: option.splits)

text \<open>A write on a channel that exists: the channel gets the increment, unless
  \<^verbatim>\<open>AddNewCurr\<close> rejects it, and then the error is logged.\<close>

lemma write_present:
  assumes cm: "ContainersMetrics c containerID = Some cm"
    and ch: "CounterStats cm name = Some ch"
  shows "CounterStats_AddNewCurr env containerID name v c =
     Inr (c\<lparr>ContainersMetrics := (ContainersMetrics c)(containerID \<mapsto>
              cm\<lparr>CounterStats := (CounterStats cm)(name \<mapsto> add_delta (accepted env v) ch)\<rparr>)\<rparr>,
          case metric_AddNewCurr_error env v of None \<Rightarrow> [] | Some e \<Rightarrow> [KlogInfoln 5 e])"
  using cm ch
  by (cases "metric_AddNewCurr_error env v")
     (simp_all add: CounterStats_AddNewCurr_def AddNewCurr_def accepted_def)

lemma write_facts:
  assumes ex: "ContainersMetrics c containerID \<noteq> None"
    and present: "accelerator_channels_present env c"
    and name: "name = config_GPUSMUtilization env \<or> name = config_GPUMemUtilization env"
  shows "\<exists>c'. CounterStats_AddNewCurr env containerID name v c =
            Inr (c', case metric_AddNewCurr_error env v of None \<Rightarrow> [] | Some e \<Rightarrow> [KlogInfoln 5 e])
          \<and> systemProcessName c' = systemProcessName c
          \<and> accelerator_channels_present env c'
          \<and> (\<forall>x. ContainersMetrics c' x \<noteq> None \<longleftrightarrow> ContainersMetrics c x \<noteq> None)
          \<and> (\<forall>x n. counter_channel c' x n =
                add_delta (if x = containerID \<and> n = name then accepted env v else 0)
                  (counter_channel c x n))"
proof -
  from ex obtain cm where cm: "ContainersMetrics c containerID = Some cm" by auto
  with present name obtain ch where ch: "CounterStats cm name = Some ch"
    by (auto simp: accelerator_channels_present_def)
  let ?c' = "c\<lparr>ContainersMetrics := (ContainersMetrics c)(containerID \<mapsto>
              cm\<lparr>CounterStats := (CounterStats cm)(name \<mapsto> add_delta (accepted env v) ch)\<rparr>)\<rparr>"
  have run: "CounterStats_AddNewCurr env containerID name v c =
     Inr (?c', case metric_AddNewCurr_error env v of None \<Rightarrow> [] | Some e \<Rightarrow> [KlogInfoln 5 e])"
    using cm ch by (rule write_present)
  have 1: "systemProcessName ?c' = systemProcessName c" by simp
  have 2: "accelerator_channels_present env ?c'"
    using present cm by (auto simp: accelerator_channels_present_def)
  have 3: "\<forall>x. ContainersMetrics ?c' x \<noteq> None \<longleftrightarrow> ContainersMetrics c x \<noteq> None"
    using cm by auto
  have 4: "\<forall>x n. counter_channel ?c' x n =
                add_delta (if x = containerID \<and> n = name then accepted env v else 0)
                  (counter_channel c x n)"
    using cm ch by (auto simp: counter_channel_def)
  from run 1 2 3 4 show ?thesis by blast
qed

lemma attributed_Nil:
  "accelerator_channels_present env c \<Longrightarrow> attributed env [] c c"
  by (simp add: attributed_def contributions_def)

lemma attributed_append:
  assumes "attributed env xs c c1" and "attributed env ys c1 c2"
  shows "attributed env (xs @ ys) c c2"
  using assms
  by (auto simp: attributed_def contributions_def add_delta_add_delta)

lemma target_container_resolved:
  "cgroup_GetContainerIDFromPID env pid = (resolved, err) \<Longrightarrow>
     target_container env sys pid = (if err \<noteq> None then sys else resolved)"
  by (cases err) (simp_all add: target_container_def)

lemma attributeProcessUtilization_attributed:
  assumes present: "accelerator_channels_present env c"
  shows "\<exists>c'. attributeProcessUtilization env sample c =
                 Inr (c', sample_events env (systemProcessName c) sample)
            \<and> attributed env [sample] c c'"
proof -
  obtain pid pu where sample: "sample = (pid, pu)" by (cases sample)
  obtain resolved err where r: "cgroup_GetContainerIDFromPID env pid = (resolved, err)"
    by (cases "cgroup_GetContainerIDFromPID env pid")
  let ?sys = "systemProcessName c"
  let ?t = "target_container env ?sys pid"
  let ?sm = "config_GPUSMUtilization env"
  let ?mem = "config_GPUMemUtilization env"
  let ?c1 = "createContainersMetricsIfNotExist env ?t 0 pid False c"
  have t: "(if err \<noteq> None then ?sys else resolved) = ?t"
    using target_container_resolved [OF r, of ?sys] by simp
  have ex1: "ContainersMetrics ?c1 ?t \<noteq> None"
    using create_exists [of env ?t 0 pid False c ?t] by simp
  have p1: "accelerator_channels_present env ?c1" using present by (rule create_present)
  from write_facts [OF ex1 p1, of ?sm "SmUtil pu"]
  obtain c2 where w2: "CounterStats_AddNewCurr env ?t ?sm (SmUtil pu) ?c1 =
        Inr (c2, case metric_AddNewCurr_error env (SmUtil pu) of
                   None \<Rightarrow> [] | Some e \<Rightarrow> [KlogInfoln 5 e])"
    and n2: "systemProcessName c2 = ?sys"
    and p2: "accelerator_channels_present env c2"
    and e2: "\<forall>x. ContainersMetrics c2 x \<noteq> None \<longleftrightarrow> ContainersMetrics ?c1 x \<noteq> None"
    and ch2: "\<forall>x n. counter_channel c2 x n =
                add_delta (if x = ?t \<and> n = ?sm then accepted env (SmUtil pu) else 0)
                  (counter_channel c x n)"
    by auto
  from e2 ex1 have ex2: "ContainersMetrics c2 ?t \<noteq> None" by simp
  from write_facts [OF ex2 p2, of ?mem "MemUtil pu"]
  obtain c3 where w3: "CounterStats_AddNewCurr env ?t ?mem (MemUtil pu) c2 =
        Inr (c3, case metric_AddNewCurr_error env (MemUtil pu) of
                   None \<Rightarrow> [] | Some e \<Rightarrow> [KlogInfoln 5 e])"
    and n3: "systemProcessName c3 = systemProcessName c2"
    and p3: "accelerator_channels_present env c3"
    and e3: "\<forall>x. ContainersMetrics c3 x \<noteq> None \<longleftrightarrow> ContainersMetrics c2 x \<noteq> None"
    and ch3: "\<forall>x n. counter_channel c3 x n =
                add_delta (if x = ?t \<and> n = ?mem then accepted env (MemUtil pu) else 0)
                  (counter_channel c2 x n)"
    by auto
  have run: "attributeProcessUtilization env sample c =
                 Inr (c3, sample_events env ?sys sample)"
    unfolding attributeProcessUtilization_def sample Let_def split_conv r t
    by (cases err) (simp_all add: w2 w3 sample_events_def r)
  have chans: "\<forall>x n. counter_channel c3 x n =
             add_delta (contributions env ?sys x n [sample]) (counter_channel c x n)"
    by (simp add: ch3 ch2 add_delta_add_delta contributions_def contribution_def sample)
  have exists: "\<forall>x. ContainersMetrics c3 x \<noteq> None \<longleftrightarrow>
             ContainersMetrics c x \<noteq> None
             \<or> x \<in> target_container env ?sys ` fst ` set [sample]"
    using e3 e2 create_exists [of env ?t 0 pid False c] by (auto simp: sample)
  from n3 n2 p3 exists chans have "attributed env [sample] c c3"
    by (simp add: attributed_def)
  with run show ?thesis by blast
qed

lemma attributeDevice_attributed:
  "accelerator_channels_present env c \<Longrightarrow>
     \<exists>c'. attributeDevice env samples c =
             Inr (c', concat (map (sample_events env (systemProcessName c)) samples))
        \<and> attributed env samples c c'"
proof (induction samples arbitrary: c)
  case Nil
  then show ?case by (simp add: attributed_Nil)
next
  case (Cons sample samples)
  from attributeProcessUtilization_attributed [OF Cons.prems, of sample]
  obtain c1 where step: "attributeProcessUtilization env sample c =
        Inr (c1, sample_events env (systemProcessName c) sample)"
    and a1: "attributed env [sample] c c1"
    by blast
  from a1 have n1: "systemProcessName c1 = systemProcessName c"
    and p1: "accelerator_channels_present env c1"
    by (simp_all add: attributed_def)
  from Cons.IH [OF p1]
  obtain c2 where rest: "attributeDevice env samples c1 =
        Inr (c2, concat (map (sample_events env (systemProcessName c)) samples))"
    and a2: "attributed env samples c1 c2"
    unfolding n1 by blast
  from attributed_append [OF a1 a2] have "attributed env (sample # samples) c c2" by simp
  with step rest show ?case by simp
qed

lemma updateDevice_attributed:
  assumes "accelerator_channels_present env c"
  shows "\<exists>c'. updateDevice env device c =
             Inr (c', device_events env (systemProcessName c) device)
        \<and> attributed env (fst (accelerator_GetProcessResourceUtilizationPerDevice env device)) c c'"
proof -
  obtain samples err where
    reply: "accelerator_GetProcessResourceUtilizationPerDevice env device = (samples, err)"
    by (cases "accelerator_GetProcessResourceUtilizationPerDevice env device")
  from attributeDevice_attributed [OF assms, of samples]
  obtain c' where "attributeDevice env samples c =
             Inr (c', concat (map (sample_events env (systemProcessName c)) samples))"
    and "attributed env samples c c'"
    by blast
  then show ?thesis
    by (simp add: updateDevice_def device_events_def reply)
qed

lemma updateDevices_attributed:
  "accelerator_channels_present env c \<Longrightarrow>
     \<exists>c'. updateDevices env devices c =
             Inr (c', concat (map (device_events env (systemProcessName c)) devices))
        \<and> attributed env (samples_of env devices) c c'"
proof (induction devices arbitrary: c)
  case Nil
  then show ?case by (simp add: attributed_Nil samples_of_def)
next
  case (Cons device devices)
  from updateDevice_attributed [OF Cons.prems, of device]
  obtain c1 where step: "updateDevice env device c =
        Inr (c1, device_events env (systemProcessName c) device)"
    and a1: "attributed env (fst (accelerator_GetProcessResourceUtilizationPerDevice env device)) c c1"
    by blast
  from a1 have n1: "systemProcessName c1 = systemProcessName c"
    and p1: "accelerator_channels_present env c1"
    by (simp_all add: attributed_def)
  from Cons.IH [OF p1]
  obtain c2 where rest: "updateDevices env devices c1 =
        Inr (c2, concat (map (device_events env (systemProcessName c)) devices))"
    and a2: "attributed env (samples_of env devices) c1 c2"
    unfolding n1 by blast
  from attributed_append [OF a1 a2]
  have "attributed env (samples_of env (device # devices)) c c2"
    by (simp add: samples_of_def)
  with step rest show ?case by simp
qed

lemma samples_of_append:
  "samples_of env (xs @ ys) = samples_of env xs @ samples_of env ys"
  by (simp add: samples_of_def)


lemma resolver_line_logged:
  assumes "(pid, pu) \<in> set (samples_of env devices)"
    and "snd (cgroup_GetContainerIDFromPID env pid) = Some e"
  shows "KlogInfof 5 ''failed to resolve container for Pid %v: %v, set containerID=%s''
           [ArgNat pid, ArgString e, ArgString sys]
         \<in> set (concat (map (device_events env sys) devices))"
proof -
  let ?line = "KlogInfof 5 ''failed to resolve container for Pid %v: %v, set containerID=%s''
           [ArgNat pid, ArgString e, ArgString sys]"
  from assms(1) have "\<exists>device \<in> set devices.
      (pid, pu) \<in> set (fst (accelerator_GetProcessResourceUtilizationPerDevice env device))"
    by (simp add: samples_of_def)
  then obtain device where d: "device \<in> set devices"
    and s: "(pid, pu) \<in> set (fst (accelerator_GetProcessResourceUtilizationPerDevice env device))"
    by blast
  from assms(2) have "?line \<in> set (sample_events env sys (pid, pu))"
    by (simp add: sample_events_def)
  with s have "\<exists>sample \<in> set (fst (accelerator_GetProcessResourceUtilizationPerDevice env device)).
      ?line \<in> set (sample_events env sys sample)"
    by (rule_tac x = "(pid, pu)" in bexI)
  then have "?line \<in> set (device_events env sys device)"
    by (simp add: device_events_def)
  with d have "\<exists>device \<in> set devices. ?line \<in> set (device_events env sys device)"
    by (rule_tac x = device in bexI)
  then show ?thesis by simp
qed

lemma contribution_unresolved:
  assumes "snd (cgroup_GetContainerIDFromPID env pid) = Some e"
  shows "contribution env sys sys name (pid, pu) =
           (if name = config_GPUSMUtilization env then accepted env (SmUtil pu) else 0)
           + (if name = config_GPUMemUtilization env then accepted env (MemUtil pu) else 0)"
    and "other \<noteq> sys \<Longrightarrow> contribution env sys other name (pid, pu) = 0"
  using assms by (simp_all add: contribution_def target_container_def)

subsection \<open>Unresolved pids\<close>

text \<open>
  Claim C3. updateAcceleratorMetrics returns, and for every sampled pid for which the
  container-identity resolver returns an error the sample is attributed to the
  system-process container: the record of that container exists afterwards (it is
  created if it was absent), the sample adds its SM utilization to the SM-utilization
  channel and its memory utilization to the memory-utilization channel of the
  system-process container and nothing to any other container, and the line with the
  pid, the error and the system-process name is logged at verbosity 5. After the call
  every channel of every container holds what it held before plus the sum of what all
  samples of all devices add to it. A value counts as what \<^verbatim>\<open>AddNewCurr\<close> accepts of
  it: the value, or nothing if \<^verbatim>\<open>AddNewCurr\<close> rejects it. (Every container record that
  exists before the call has the two accelerator channels, as all records that
  NewContainerMetrics makes have; the same holds after the call.)
\<close>

theorem unresolved_pids_go_to_system_process:
  assumes present: "accelerator_channels_present env c"
  shows "\<exists>c' events. updateAcceleratorMetrics env c = Inr (c', events)
     \<and> events = concat (map (device_events env (systemProcessName c)) (accelerator_GetGpus env))
     \<and> systemProcessName c' = systemProcessName c
     \<and> accelerator_channels_present env c'
     \<and> (\<forall>containerID name. counter_channel c' containerID name =
           add_delta (contributions env (systemProcessName c) containerID name
                        (samples_of env (accelerator_GetGpus env)))
             (counter_channel c containerID name))
     \<and> (\<forall>pid pu e. (pid, pu) \<in> set (samples_of env (accelerator_GetGpus env))
            \<and> snd (cgroup_GetContainerIDFromPID env pid) = Some e \<longrightarrow>
          ContainersMetrics c' (systemProcessName c) \<noteq> None
          \<and> (\<forall>name. contribution env (systemProcessName c) (systemProcessName c) name (pid, pu) =
                (if name = config_GPUSMUtilization env then accepted env (SmUtil pu) else 0)
                + (if name = config_GPUMemUtilization env then accepted env (MemUtil pu) else 0))
          \<and> (\<forall>other name. other \<noteq> systemProcessName c \<longrightarrow>
                contribution env (systemProcessName c) other name (pid, pu) = 0)
          \<and> KlogInfof 5 ''failed to resolve container for Pid %v: %v, set containerID=%s''
               [ArgNat pid, ArgString e, ArgString (systemProcessName c)] \<in> set events)"
proof -
  let ?sys = "systemProcessName c"
  let ?all = "samples_of env (accelerator_GetGpus env)"
  from updateDevices_attributed [OF present, of "accelerator_GetGpus env"]
  obtain c' where run: "updateAcceleratorMetrics env c =
        Inr (c', concat (map (device_events env ?sys) (accelerator_GetGpus env)))"
    and a: "attributed env ?all c c'"
    unfolding updateAcceleratorMetrics_def by blast
  from a have name: "systemProcessName c' = ?sys"
    and p: "accelerator_channels_present env c'"
    and ex: "\<forall>x. ContainersMetrics c' x \<noteq> None \<longleftrightarrow>
             ContainersMetrics c x \<noteq> None \<or> x \<in> target_container env ?sys ` fst ` set ?all"
    and chans: "\<forall>x n. counter_channel c' x n =
             add_delta (contributions env ?sys x n ?all) (counter_channel c x n)"
    by (simp_all add: attributed_def)
  have unresolved: "ContainersMetrics c' ?sys \<noteq> None
          \<and> (\<forall>name. contribution env ?sys ?sys name (pid, pu) =
                (if name = config_GPUSMUtilization env then accepted env (SmUtil pu) else 0)
                + (if name = config_GPUMemUtilization env then accepted env (MemUtil pu) else 0))
          \<and> (\<forall>other name. other \<noteq> ?sys \<longrightarrow> contribution env ?sys other name (pid, pu) = 0)
          \<and> KlogInfof 5 ''failed to resolve container for Pid %v: %v, set containerID=%s''
               [ArgNat pid, ArgString e, ArgString ?sys]
             \<in> set (concat (map (device_events env ?sys) (accelerator_GetGpus env)))"
    if sampled: "(pid, pu) \<in> set ?all"
      and failed: "snd (cgroup_GetContainerIDFromPID env pid) = Some e" for pid pu e
  proof -
    from failed have "target_container env ?sys pid = ?sys"
      by (simp add: target_container_def)
    with sampled have "?sys \<in> target_container env ?sys ` fst ` set ?all"
      by (metis fst_conv imageI)
    with ex have 1: "ContainersMetrics c' ?sys \<noteq> None" by blast
    have 2: "\<forall>name. contribution env ?sys ?sys name (pid, pu) =
                (if name = config_GPUSMUtilization env then accepted env (SmUtil pu) else 0)
                + (if name = config_GPUMemUtilization env then accepted env (MemUtil pu) else 0)"
      using contribution_unresolved(1) [OF failed] by blast
    have 3: "\<forall>other name. other \<noteq> ?sys \<longrightarrow> contribution env ?sys other name (pid, pu) = 0"
      using contribution_unresolved(2) [OF failed] by blast
    from 1 2 3 resolver_line_logged [OF sampled failed, of ?sys]
    show ?thesis by (intro conjI)
  qed
  then have u: "\<forall>pid pu e. (pid, pu) \<in> set ?all
            \<and> snd (cgroup_GetContainerIDFromPID env pid) = Some e \<longrightarrow>
          ContainersMetrics c' ?sys \<noteq> None
          \<and> (\<forall>name. contribution env ?sys ?sys name (pid, pu) =
                (if name = config_GPUSMUtilization env then accepted env (SmUtil pu) else 0)
                + (if name = config_GPUMemUtilization env then accepted env (MemUtil pu) else 0))
          \<and> (\<forall>other name. other \<noteq> ?sys \<longrightarrow> contribution env ?sys other name (pid, pu) = 0)
          \<and> KlogInfof 5 ''failed to resolve container for Pid %v: %v, set containerID=%s''
               [ArgNat pid, ArgString e, ArgString ?sys]
             \<in> set (concat (map (device_events env ?sys) (accelerator_GetGpus env)))"
    by blast
  from run name p chans u show ?thesis
    by (intro exI [of _ c'] exI [of _ "concat (map (device_events env ?sys) (accelerator_GetGpus env))"]
        conjI) (assumption | rule refl)+
qed

theorem unresolved_pids_go_to_system_process_witness:
  "\<exists>c' events. updateAcceleratorMetrics unresolved_pids_environment empty_collector = Inr (c', events)
     \<and> ContainersMetrics c' ''system_processes'' \<noteq> None
     \<and> curr (counter_channel c' ''system_processes'' ''gpu_sm_util'') = 35
     \<and> curr (counter_channel c' ''system_processes'' ''gpu_mem_util'') = 12
     \<and> curr (counter_channel c' ''containerA'' ''gpu_sm_util'') = 50
     \<and> curr (counter_channel c' ''containerA'' ''gpu_mem_util'') = 20
     \<and> KlogInfof 5 ''failed to resolve container for Pid %v: %v, set containerID=%s''
          [ArgNat 7, ArgString ''no container'', ArgString ''system_processes''] \<in> set events"
proof -
  let ?env = unresolved_pids_environment
  let ?all = "samples_of ?env (accelerator_GetGpus ?env)"
  have present: "accelerator_channels_present ?env empty_collector"
    by (simp add: accelerator_channels_present_def empty_collector_def)
  have sys: "systemProcessName empty_collector = ''system_processes''"
    by (simp add: empty_collector_def)
  have names: "config_GPUSMUtilization ?env = ''gpu_sm_util''"
    "config_GPUMemUtilization ?env = ''gpu_mem_util''"
    by (simp_all add: unresolved_pids_environment_def idle_environment_def)
  have all: "?all = [(7, \<lparr>SmUtil = 30, MemUtil = 10\<rparr>), (42, \<lparr>SmUtil = 50, MemUtil = 20\<rparr>),
           (8, \<lparr>SmUtil = 5, MemUtil = 2\<rparr>)]"
    by (simp add: samples_of_def unresolved_pids_environment_def idle_environment_def)
  have failed: "snd (cgroup_GetContainerIDFromPID ?env 7) = Some ''no container''"
    by (simp add: unresolved_pids_environment_def idle_environment_def)
  have sampled: "(7, \<lparr>SmUtil = 30, MemUtil = 10\<rparr>) \<in> set ?all"
    by (simp add: all)
  have sums: "contributions ?env ''system_processes'' ''system_processes'' ''gpu_sm_util'' ?all = 35"
    "contributions ?env ''system_processes'' ''system_processes'' ''gpu_mem_util'' ?all = 12"
    "contributions ?env ''system_processes'' ''containerA'' ''gpu_sm_util'' ?all = 50"
    "contributions ?env ''system_processes'' ''containerA'' ''gpu_mem_util'' ?all = 20"
    unfolding all
    by (simp_all add: contributions_def contribution_def target_container_def accepted_def
        unresolved_pids_environment_def idle_environment_def)
  have fresh: "counter_channel empty_collector x n = new_channel" for x n
    by (simp add: counter_channel_def empty_collector_def)
  from unresolved_pids_go_to_system_process [OF present]
  obtain c' events where run: "updateAcceleratorMetrics ?env empty_collector = Inr (c', events)"
    and chans: "\<forall>containerID name. counter_channel c' containerID name =
           add_delta (contributions ?env (systemProcessName empty_collector) containerID name ?all)
             (counter_channel empty_collector containerID name)"
    and unresolved: "\<forall>pid pu e. (pid, pu) \<in> set ?all
            \<and> snd (cgroup_GetContainerIDFromPID ?env pid) = Some e \<longrightarrow>
          ContainersMetrics c' (systemProcessName empty_collector) \<noteq> None
          \<and> (\<forall>name. contribution ?env (systemProcessName empty_collector)
                  (systemProcessName empty_collector) name (pid, pu) =
                (if name = config_GPUSMUtilization ?env then accepted ?env (SmUtil pu) else 0)
                + (if name = config_GPUMemUtilization ?env then accepted ?env (MemUtil pu) else 0))
          \<and> (\<forall>other name. other \<noteq> systemProcessName empty_collector \<longrightarrow>
                contribution ?env (systemProcessName empty_collector) other name (pid, pu) = 0)
          \<and> KlogInfof 5 ''failed to resolve container for Pid %v: %v, set containerID=%s''
               [ArgNat pid, ArgString e, ArgString (systemProcessName empty_collector)] \<in> set events"
    by blast
  from unresolved sampled failed
  have created: "ContainersMetrics c' ''system_processes'' \<noteq> None"
    and line: "KlogInfof 5 ''failed to resolve container for Pid %v: %v, set containerID=%s''
          [ArgNat 7, ArgString ''no container'', ArgString ''system_processes''] \<in> set events"
    unfolding sys by blast+
  have amounts: "curr (counter_channel c' ''system_processes'' ''gpu_sm_util'') = 35"
    "curr (counter_channel c' ''system_processes'' ''gpu_mem_util'') = 12"
    "curr (counter_channel c' ''containerA'' ''gpu_sm_util'') = 50"
    "curr (counter_channel c' ''containerA'' ''gpu_mem_util'') = 20"
    using chans unfolding sys
    by (simp_all add: sums fresh add_delta_def new_channel_def)
  from run created amounts line show ?thesis
    by (intro exI [of _ c'] exI [of _ events] conjI)
qed

subsection \<open>A device whose query returns an error\<close>







end
